theory Spec2Isabelle
  imports Complex_Main
begin

section \<open>Data model\<close>

text \<open>
  The entities of \<^verbatim>\<open>listings/views.py\<close>. Model instances are records; a foreign key is the
  referenced row itself (\<^verbatim>\<open>booking.listing.host\<close> is \<open>host (listing booking)\<close>). Django
  compares model instances by primary key, so \<^verbatim>\<open>a != b\<close> on users is \<open>pk a \<noteq> pk b\<close>.
  Statuses are the strings the views compare against. A price is a \<^verbatim>\<open>Decimal\<close>, here a
  rational. A date is its proleptic Gregorian ordinal (\<^verbatim>\<open>date.toordinal()\<close>), so that
  \<^verbatim>\<open>(check_out - check_in).days\<close> is the difference of two integers.
\<close>

record user =
  pk :: nat
  username :: string
  first_name :: string
  email :: string

record listing =
  listing_id :: string
  host :: user
  title :: string
  location :: string
  price_per_night :: rat

type_synonym date = int

record booking =
  booking_id :: string
  guest :: user
  listing :: listing
  check_in_date :: date
  check_out_date :: date
  total_price :: rat
  booking_status :: string

record payment =
  payment_id :: string
  booking :: booking
  amount :: rat
  currency :: string
  payment_status :: string
  chapa_reference :: "string option"
  transaction_id :: "string option"
  payment_method :: "string option"
  error_message :: "string option"

subsection \<open>Dates\<close>

text \<open>
  \<open>ymd y m d\<close> is the ordinal of the calendar date \<^verbatim>\<open>date(y, m, d)\<close>, computed as
  Python's \<^verbatim>\<open>datetime\<close> does (days before the year, days before the month, day).
\<close>

definition is_leap :: "int \<Rightarrow> bool" where
  "is_leap y = (y mod 4 = 0 \<and> (y mod 100 \<noteq> 0 \<or> y mod 400 = 0))"

definition days_before_year :: "int \<Rightarrow> int" where
  "days_before_year y = (y - 1) * 365 + (y - 1) div 4 - (y - 1) div 100 + (y - 1) div 400"

definition days_in_month :: "int \<Rightarrow> nat \<Rightarrow> int" where
  "days_in_month y m =
     (if m = 2 then (if is_leap y then 29 else 28)
      else if m = 4 \<or> m = 6 \<or> m = 9 \<or> m = 11 then 30 else 31)"

definition days_before_month :: "int \<Rightarrow> nat \<Rightarrow> int" where
  "days_before_month y m = sum_list (map (days_in_month y) [1..<m])"

definition ymd :: "int \<Rightarrow> nat \<Rightarrow> int \<Rightarrow> date" where
  "ymd y m d = days_before_year y + days_before_month y m + d"

section \<open>Outcomes of a view\<close>

text \<open>
  A view either raises an exception that the framework turns into an error response, or
  returns \<^verbatim>\<open>Response(body, status=code)\<close>. A body is a dictionary of keys and values, or the
  serializer's rendering of a booking; \<open>PStr_of_decimal d\<close> is the string \<^verbatim>\<open>str(d)\<close> of a
  \<^verbatim>\<open>Decimal\<close>, kept by its value. The world is the database tables together with the
  messages handed to the task queue and the requests made to the payment gateway.
\<close>

datatype pyval = PNone | PBool bool | PStr string | PStr_of_decimal rat

datatype body = Dict "(string \<times> pyval) list" | Booking_data booking

datatype api_exception =
    PermissionDenied string
  | Http404
  | Listing_DoesNotExist
  | InvalidRange

datatype result = Raised api_exception | Response nat body

definition HTTP_200_OK :: nat where "HTTP_200_OK = 200"
definition HTTP_400_BAD_REQUEST :: nat where "HTTP_400_BAD_REQUEST = 400"
definition HTTP_404_NOT_FOUND :: nat where "HTTP_404_NOT_FOUND = 404"
definition HTTP_500_INTERNAL_SERVER_ERROR :: nat where "HTTP_500_INTERNAL_SERVER_ERROR = 500"

record confirmation_kwargs =
  c_booking_id :: string
  c_guest_email :: string
  c_guest_name :: string
  c_listing_title :: string
  c_listing_location :: string
  c_check_in_date :: date
  c_check_out_date :: date
  c_amount :: rat
  c_currency :: string
  c_payment_id :: string
  c_transaction_id :: "string option"

record failure_kwargs =
  f_guest_email :: string
  f_guest_name :: string
  f_listing_title :: string
  f_booking_id :: string
  f_error_message :: string

datatype task =
    Send_payment_confirmation_email confirmation_kwargs
  | Send_payment_failure_email failure_kwargs

datatype gateway_call = Initiate_call string string | Verify_call string

record world =
  listings :: "listing list"
  bookings :: "booking list"
  payments :: "payment list"
  task_queue :: "task list"
  gateway_calls :: "gateway_call list"
  default_currency :: string

text \<open>
  \<^verbatim>\<open>obj.save()\<close>: the row with the object's primary key is replaced, and a row is inserted
  when there is none.
\<close>

definition save_booking :: "booking \<Rightarrow> world \<Rightarrow> world" where
  "save_booking b w =
     (if find (\<lambda>r. booking_id r = booking_id b) (bookings w) = None
      then w\<lparr>bookings := bookings w @ [b]\<rparr>
      else w\<lparr>bookings := map (\<lambda>r. if booking_id r = booking_id b then b else r) (bookings w)\<rparr>)"

definition save_payment :: "payment \<Rightarrow> world \<Rightarrow> world" where
  "save_payment p w =
     (if find (\<lambda>r. payment_id r = payment_id p) (payments w) = None
      then w\<lparr>payments := payments w @ [p]\<rparr>
      else w\<lparr>payments := map (\<lambda>r. if payment_id r = payment_id p then p else r) (payments w)\<rparr>)"

section \<open>Booking lifecycle\<close>

text \<open>
  \<^verbatim>\<open>BookingViewSet.get_queryset\<close>: an authenticated user sees the bookings they made and the
  bookings of their listings, the anonymous user (\<open>None\<close>) sees none. \<open>get_object\<close> is the
  framework's lookup of the booking with the primary key of the URL among the rows of
  \<^verbatim>\<open>get_queryset\<close>; it raises \<^verbatim>\<open>Http404\<close> (here \<open>None\<close>) when there is none. The permission class
  of the view set, \<^verbatim>\<open>IsAuthenticated\<close>, lets only authenticated users reach a view, so
  \<open>request_user\<close>, which is \<^verbatim>\<open>request.user\<close>, is a user.
\<close>

definition get_queryset :: "world \<Rightarrow> user option \<Rightarrow> booking list" where
  "get_queryset w request_user =
     (case request_user of
        Some u \<Rightarrow> filter (\<lambda>b. pk (guest b) = pk u \<or> pk (host (listing b)) = pk u) (bookings w)
      | None \<Rightarrow> [])"

definition get_object :: "world \<Rightarrow> string \<Rightarrow> user \<Rightarrow> booking option" where
  "get_object w booking_pk request_user =
     find (\<lambda>b. booking_id b = booking_pk) (get_queryset w (Some request_user))"

text \<open>
  \<^verbatim>\<open>BookingViewSet.cancel\<close> and \<^verbatim>\<open>BookingViewSet.confirm\<close>; \<open>booking_pk\<close> is the primary key in
  the URL.
\<close>

definition cancel :: "world \<Rightarrow> string \<Rightarrow> user \<Rightarrow> result \<times> world" where
  "cancel w booking_pk request_user =
     (case get_object w booking_pk request_user of
        None \<Rightarrow> (Raised Http404, w)
      | Some b \<Rightarrow>
          if pk (guest b) \<noteq> pk request_user \<and> pk (host (listing b)) \<noteq> pk request_user
          then (Raised (PermissionDenied
                  ''You can only cancel your own bookings or bookings for your listings.''), w)
          else if booking_status b \<notin> set [''pending'', ''confirmed'']
          then (Response HTTP_400_BAD_REQUEST
                  (Dict [(''detail'', PStr (''Cannot cancel a '' @ booking_status b @ '' booking.''))]), w)
          else (let b' = b\<lparr>booking_status := ''cancelled''\<rparr>
                in (Response HTTP_200_OK (Booking_data b'), save_booking b' w)))"

definition confirm :: "world \<Rightarrow> string \<Rightarrow> user \<Rightarrow> result \<times> world" where
  "confirm w booking_pk request_user =
     (case get_object w booking_pk request_user of
        None \<Rightarrow> (Raised Http404, w)
      | Some b \<Rightarrow>
          if pk (host (listing b)) \<noteq> pk request_user
          then (Raised (PermissionDenied ''Only the listing host can confirm bookings.''), w)
          else if booking_status b \<noteq> ''pending''
          then (Response HTTP_400_BAD_REQUEST
                  (Dict [(''detail'', PStr (''Cannot confirm a '' @ booking_status b @ '' booking.''))]), w)
          else (let b' = b\<lparr>booking_status := ''confirmed''\<rparr>
                in (Response HTTP_200_OK (Booking_data b'), save_booking b' w)))"

section \<open>Python helpers\<close>

text \<open>
  \<^verbatim>\<open>a or b\<close> on strings, \<^verbatim>\<open>str.lower()\<close> on ASCII letters, and \<^verbatim>\<open>d.get(key, default)\<close> for a
  key that may be absent (\<open>None\<close> is the absent key).
\<close>

definition py_or :: "string \<Rightarrow> string \<Rightarrow> string" where
  "py_or a b = (if a \<noteq> [] then a else b)"

definition lower_char :: "char \<Rightarrow> char" where
  "lower_char c =
     (if 65 \<le> (of_char c :: nat) \<and> (of_char c :: nat) \<le> 90
      then char_of ((of_char c :: nat) + 32) else c)"

definition lower :: "string \<Rightarrow> string" where
  "lower s = map lower_char s"

definition get_default :: "'a option \<Rightarrow> 'a \<Rightarrow> 'a" where
  "get_default v d = (case v of None \<Rightarrow> d | Some x \<Rightarrow> x)"

definition opt_str :: "string option \<Rightarrow> pyval" where
  "opt_str v = (case v of None \<Rightarrow> PNone | Some s \<Rightarrow> PStr s)"

definition str_of :: "string option \<Rightarrow> string" where
  "str_of v = (case v of None \<Rightarrow> ''None'' | Some s \<Rightarrow> s)"

section \<open>Payment gateway client\<close>

text \<open>
  \<^verbatim>\<open>ChapaAPIClient\<close> talks to a remote service, so what it does in one request is an input
  of the view: whether the constructor raises, and what each method returns or raises. The
  views tell \<^verbatim>\<open>ValueError\<close> from every other exception; \<open>str_exc\<close> is \<^verbatim>\<open>str(e)\<close>. A result is
  the dictionary the client returns, with \<open>None\<close> for a key that is absent.
\<close>

datatype py_exception = ValueError string | OtherException string

definition str_exc :: "py_exception \<Rightarrow> string" where
  "str_exc e = (case e of ValueError m \<Rightarrow> m | OtherException m \<Rightarrow> m)"

record initiate_result =
  ir_success :: bool
  ir_checkout_url :: "string option"
  ir_reference :: "string option"
  ir_error :: "string option"

record verify_result =
  vr_success :: bool
  vr_status :: "string option"
  vr_reference :: "string option"
  vr_method :: "string option"
  vr_amount :: "string option"
  vr_received_amount :: "string option"
  vr_error :: "string option"

record gateway =
  chapa_init :: "py_exception option"
  chapa_initiate_payment :: "payment \<Rightarrow> booking \<Rightarrow> py_exception + initiate_result"
  chapa_verify_payment :: "string \<Rightarrow> py_exception + verify_result"

definition log_call :: "gateway_call \<Rightarrow> world \<Rightarrow> world" where
  "log_call c w = w\<lparr>gateway_calls := gateway_calls w @ [c]\<rparr>"

definition delay :: "task \<Rightarrow> world \<Rightarrow> world" where
  "delay t w = w\<lparr>task_queue := task_queue w @ [t]\<rparr>"

section \<open>Payment helpers and the booking serializer\<close>

record update_kwargs =
  kw_chapa_reference :: "string option"
  kw_transaction_id :: "string option"
  kw_payment_method :: "string option"
  kw_error_message :: "string option"

definition no_kwargs :: update_kwargs where
  "no_kwargs = \<lparr>kw_chapa_reference = None, kw_transaction_id = None,
                 kw_payment_method = None, kw_error_message = None\<rparr>"

text \<open>
  Modelled from the spec: \<^verbatim>\<open>update_payment_status\<close> of \<^verbatim>\<open>listings/chapa_utils.py\<close>, which is
  not among the sources. The spec has the payment manager set the status and record, with
  it, the gateway reference, the transaction id, the payment method or the error message it
  was given; the views pass each as a keyword argument, and a keyword that is not passed, or
  is passed as \<^verbatim>\<open>None\<close>, leaves its field as it was. The payment is saved, and the caller's
  object carries the new values.
\<close>

definition update_payment_status ::
  "payment \<Rightarrow> string \<Rightarrow> update_kwargs \<Rightarrow> world \<Rightarrow> payment \<times> world" where
  "update_payment_status p new_status kw w =
     (let p' = p\<lparr>payment_status := new_status,
                 chapa_reference :=
                   (case kw_chapa_reference kw of None \<Rightarrow> chapa_reference p | Some r \<Rightarrow> Some r),
                 transaction_id :=
                   (case kw_transaction_id kw of None \<Rightarrow> transaction_id p | Some t \<Rightarrow> Some t),
                 payment_method :=
                   (case kw_payment_method kw of None \<Rightarrow> payment_method p | Some m \<Rightarrow> Some m),
                 error_message :=
                   (case kw_error_message kw of None \<Rightarrow> error_message p | Some e \<Rightarrow> Some e)\<rparr>
      in (p', save_payment p' w))"

text \<open>
  Modelled from the spec: \<^verbatim>\<open>create_payment_for_booking\<close> of \<^verbatim>\<open>listings/chapa_utils.py\<close>, which
  is not among the sources. The spec has it create the booking's payment with status
  \<^verbatim>\<open>pending\<close>, amount the booking's total price and the platform's default currency. The new
  primary key is drawn at random in the code; here it is an argument.
\<close>

definition create_payment_for_booking :: "booking \<Rightarrow> string \<Rightarrow> world \<Rightarrow> payment \<times> world" where
  "create_payment_for_booking b new_payment_id w =
     (let p = \<lparr>payment_id = new_payment_id, booking = b, amount = total_price b,
                currency = default_currency w, payment_status = ''pending'',
                chapa_reference = None, transaction_id = None, payment_method = None,
                error_message = None\<rparr>
      in (p, w\<lparr>payments := payments w @ [p]\<rparr>))"

record validated_data =
  vd_check_in_date :: date
  vd_check_out_date :: date
  vd_total_price :: "rat option"

text \<open>
  Modelled from the spec: the validation of \<^verbatim>\<open>BookingSerializer\<close> (\<^verbatim>\<open>listings/serializers.py\<close>,
  not among the sources), which the framework runs before \<^verbatim>\<open>perform_create\<close>. The spec has
  the creation of a booking fail with \<^verbatim>\<open>InvalidRange\<close> if the check-out date is not after the
  check-in date.
\<close>

definition is_valid :: "validated_data \<Rightarrow> api_exception option" where
  "is_valid vd = (if vd_check_out_date vd \<le> vd_check_in_date vd then Some InvalidRange else None)"

text \<open>
  Modelled from the spec: \<^verbatim>\<open>serializer.save(guest, listing, total_price)\<close> of
  \<^verbatim>\<open>BookingSerializer\<close> and the defaults of the \<^verbatim>\<open>Booking\<close> model (\<^verbatim>\<open>listings/models.py\<close>, not
  among the sources). The spec has a new booking start with status \<^verbatim>\<open>pending\<close>. The new
  primary key is an argument.
\<close>

definition serializer_save ::
  "validated_data \<Rightarrow> string \<Rightarrow> user \<Rightarrow> listing \<Rightarrow> rat \<Rightarrow> world \<Rightarrow> booking \<times> world" where
  "serializer_save vd new_booking_id g l price w =
     (let b = \<lparr>booking_id = new_booking_id, guest = g, listing = l,
                check_in_date = vd_check_in_date vd, check_out_date = vd_check_out_date vd,
                total_price = price, booking_status = ''pending''\<rparr>
      in (b, w\<lparr>bookings := bookings w @ [b]\<rparr>))"

section \<open>Creating a booking\<close>

text \<open>
  \<^verbatim>\<open>BookingViewSet.perform_create\<close>. \<^verbatim>\<open>Listing.objects.get\<close> raises when no listing has the
  id. \<^verbatim>\<open>not total_price\<close> holds for a price that was not supplied and for a price of zero; a
  model instance is always true, so \<^verbatim>\<open>and listing\<close> adds nothing. The result is \<open>None\<close> when
  the method returns.
\<close>

definition perform_create ::
  "validated_data \<Rightarrow> string \<Rightarrow> user \<Rightarrow> string \<Rightarrow> string \<Rightarrow> world \<Rightarrow> api_exception option \<times> world" where
  "perform_create vd request_listing_id request_user new_booking_id new_payment_id w =
     (case find (\<lambda>l. listing_id l = request_listing_id) (listings w) of
        None \<Rightarrow> (Some Listing_DoesNotExist, w)
      | Some l \<Rightarrow>
          (let price =
                 (case vd_total_price vd of
                    None \<Rightarrow> price_per_night l * of_int (vd_check_out_date vd - vd_check_in_date vd)
                  | Some t \<Rightarrow>
                      if t = 0
                      then price_per_night l * of_int (vd_check_out_date vd - vd_check_in_date vd)
                      else t);
               (b, w1) = serializer_save vd new_booking_id request_user l price w;
               (p, w2) = create_payment_for_booking b new_payment_id w1
           in (None, w2)))"

text \<open>
  The framework's \<^verbatim>\<open>create\<close>: the serializer validates the request, and only then is
  \<^verbatim>\<open>perform_create\<close> called.
\<close>

definition create ::
  "validated_data \<Rightarrow> string \<Rightarrow> user \<Rightarrow> string \<Rightarrow> string \<Rightarrow> world \<Rightarrow> api_exception option \<times> world" where
  "create vd request_listing_id request_user new_booking_id new_payment_id w =
     (case is_valid vd of
        Some e \<Rightarrow> (Some e, w)
      | None \<Rightarrow> perform_create vd request_listing_id request_user new_booking_id new_payment_id w)"

section \<open>Initiating a payment\<close>

text \<open>
  \<^verbatim>\<open>BookingViewSet.initiate_payment\<close>. The booking is resolved by \<open>get_object\<close>;
  \<^verbatim>\<open>booking.payment\<close> is the payment row of the booking, and when there is none the payment is
  created. The body of the
  \<^verbatim>\<open>try\<close> is \<open>initiate_payment_try\<close>: it gives the exception raised or the response returned,
  and the world at that moment.
\<close>

definition initiate_payment_try ::
  "gateway \<Rightarrow> payment \<Rightarrow> booking \<Rightarrow> world \<Rightarrow> (py_exception + result) \<times> world" where
  "initiate_payment_try gw p b w =
     (case chapa_init gw of
        Some e \<Rightarrow> (Inl e, w)
      | None \<Rightarrow>
          (let w1 = log_call (Initiate_call (payment_id p) (booking_id b)) w
           in case chapa_initiate_payment gw p b of
                Inl e \<Rightarrow> (Inl e, w1)
              | Inr res \<Rightarrow>
                  if ir_success res
                  then (let (p', w2) = update_payment_status p ''pending''
                                         (no_kwargs\<lparr>kw_chapa_reference := ir_reference res\<rparr>) w1
                        in (Inr (Response HTTP_200_OK
                                  (Dict [(''success'', PBool True),
                                         (''checkout_url'', opt_str (ir_checkout_url res)),
                                         (''payment_id'', PStr (payment_id p')),
                                         (''amount'', PStr_of_decimal (amount p')),
                                         (''currency'', PStr (currency p'))])), w2))
                  else (let error_msg = get_default (ir_error res) ''Unknown error'';
                            (p', w2) = update_payment_status p ''failed''
                                         (no_kwargs\<lparr>kw_error_message := Some error_msg\<rparr>) w1
                        in (Inr (Response HTTP_400_BAD_REQUEST
                                  (Dict [(''success'', PBool False),
                                         (''error'', PStr error_msg)])), w2))))"

definition initiate_payment ::
  "gateway \<Rightarrow> world \<Rightarrow> string \<Rightarrow> user \<Rightarrow> string \<Rightarrow> result \<times> world" where
  "initiate_payment gw w booking_pk request_user new_payment_id =
     (case get_object w booking_pk request_user of
        None \<Rightarrow> (Raised Http404, w)
      | Some b \<Rightarrow>
          if pk (guest b) \<noteq> pk request_user
          then (Raised (PermissionDenied ''You can only initiate payment for your own bookings.''), w)
          else
            (let (p, w1) =
                   (case find (\<lambda>r. booking_id (booking r) = booking_id b) (payments w) of
                      Some r \<Rightarrow> (r, w)
                    | None \<Rightarrow> create_payment_for_booking b new_payment_id w)
             in if payment_status p \<noteq> ''pending''
                then (Response HTTP_400_BAD_REQUEST
                        (Dict [(''detail'',
                          PStr (''Cannot initiate payment for '' @ payment_status p @ '' payment.''))]), w1)
                else
                  (case initiate_payment_try gw p b w1 of
                     (Inr r, w2) \<Rightarrow> (r, w2)
                   | (Inl (ValueError m), w2) \<Rightarrow>
                       (Response HTTP_500_INTERNAL_SERVER_ERROR
                          (Dict [(''error'', PStr (''Configuration error: '' @ m))]), w2)
                   | (Inl (OtherException m), w2) \<Rightarrow>
                       (Response HTTP_500_INTERNAL_SERVER_ERROR
                          (Dict [(''error'', PStr (''Unexpected error: '' @ m))]), w2))))"

section \<open>Verifying a payment\<close>

definition guest_name_of :: "booking \<Rightarrow> string" where
  "guest_name_of b = py_or (first_name (guest b)) (username (guest b))"

definition confirmation_task :: "payment \<Rightarrow> string option \<Rightarrow> task" where
  "confirmation_task p reference =
     Send_payment_confirmation_email
       \<lparr>c_booking_id = booking_id (booking p),
        c_guest_email = email (guest (booking p)),
        c_guest_name = guest_name_of (booking p),
        c_listing_title = title (listing (booking p)),
        c_listing_location = location (listing (booking p)),
        c_check_in_date = check_in_date (booking p),
        c_check_out_date = check_out_date (booking p),
        c_amount = amount p,
        c_currency = currency p,
        c_payment_id = payment_id p,
        c_transaction_id = reference\<rparr>"

definition failure_task :: "payment \<Rightarrow> task" where
  "failure_task p =
     Send_payment_failure_email
       \<lparr>f_guest_email = email (guest (booking p)),
        f_guest_name = guest_name_of (booking p),
        f_listing_title = title (listing (booking p)),
        f_booking_id = booking_id (booking p),
        f_error_message = ''Your payment failed. Please try again.''\<rparr>"

text \<open>
  \<^verbatim>\<open>PaymentViewSet.verify_status\<close>, for a payment that the lookup of the view set has resolved:
  it resolves the payments whose booking the user made or hosts, and what the properties
  below say about the answers of the view, they say for such a user. \<open>verify_status_try\<close> is
  the body of the \<^verbatim>\<open>try\<close>, called with the payment's reference once it is known to be set.
\<close>

definition verify_status_try ::
  "gateway \<Rightarrow> payment \<Rightarrow> string \<Rightarrow> world \<Rightarrow> (py_exception + result) \<times> world" where
  "verify_status_try gw p reference w =
     (case chapa_init gw of
        Some e \<Rightarrow> (Inl e, w)
      | None \<Rightarrow>
          (let w1 = log_call (Verify_call reference) w
           in case chapa_verify_payment gw reference of
                Inl e \<Rightarrow> (Inl e, w1)
              | Inr res \<Rightarrow>
                  if vr_success res
                  then (let chapa_status = lower (get_default (vr_status res) ''pending'')
                        in if chapa_status = ''success''
                           then (let (p', w2) = update_payment_status p ''completed''
                                                  (no_kwargs\<lparr>kw_transaction_id := vr_reference res,
                                                             kw_payment_method := vr_method res\<rparr>) w1;
                                     w3 = delay (confirmation_task p' (vr_reference res)) w2
                                 in (Inr (Response HTTP_200_OK
                                       (Dict [(''success'', PBool True),
                                              (''status'', PStr ''completed''),
                                              (''message'', PStr ''Payment completed successfully''),
                                              (''amount'', PStr (str_of (vr_amount res))),
                                              (''received_amount'', PStr (str_of (vr_received_amount res))),
                                              (''transaction_id'', opt_str (vr_reference res))])), w3))
                           else if chapa_status = ''failed''
                           then (let (p', w2) = update_payment_status p ''failed''
                                                  (no_kwargs\<lparr>kw_error_message :=
                                                                Some ''Payment failed on Chapa''\<rparr>) w1;
                                     w3 = delay (failure_task p') w2
                                 in (Inr (Response HTTP_400_BAD_REQUEST
                                       (Dict [(''success'', PBool False),
                                              (''status'', PStr ''failed''),
                                              (''message'', PStr ''Payment failed'')])), w3))
                           else (Inr (Response HTTP_200_OK
                                       (Dict [(''success'', PBool True),
                                              (''status'', PStr ''pending''),
                                              (''message'', PStr ''Payment is still pending'')])), w1))
                  else (Inr (Response HTTP_400_BAD_REQUEST
                              (Dict [(''success'', PBool False),
                                     (''error'', PStr (get_default (vr_error res)
                                                        ''Failed to verify payment''))])), w1)))"

definition verify_status :: "gateway \<Rightarrow> world \<Rightarrow> payment \<Rightarrow> user \<Rightarrow> result \<times> world" where
  "verify_status gw w p request_user =
     (if pk (guest (booking p)) \<noteq> pk request_user
         \<and> pk (host (listing (booking p))) \<noteq> pk request_user
      then (Raised (PermissionDenied ''You can only verify your own payments.''), w)
      else
        (case chapa_reference p of
           None \<Rightarrow> (Response HTTP_400_BAD_REQUEST
                      (Dict [(''detail'', PStr ''Payment has not been initiated yet.'')]), w)
         | Some reference \<Rightarrow>
             if reference = []
             then (Response HTTP_400_BAD_REQUEST
                     (Dict [(''detail'', PStr ''Payment has not been initiated yet.'')]), w)
             else
               (case verify_status_try gw p reference w of
                  (Inr r, w2) \<Rightarrow> (r, w2)
                | (Inl (ValueError m), w2) \<Rightarrow>
                    (Response HTTP_500_INTERNAL_SERVER_ERROR
                       (Dict [(''error'', PStr (''Configuration error: '' @ m))]), w2)
                | (Inl (OtherException m), w2) \<Rightarrow>
                    (Response HTTP_500_INTERNAL_SERVER_ERROR
                       (Dict [(''error'', PStr (''Unexpected error: '' @ m))]), w2))))"

text \<open>
  \<^verbatim>\<open>PaymentViewSet.verify\<close>, the callback of the gateway: \<open>tx_ref\<close> is
  \<^verbatim>\<open>request.data.get('tx_ref')\<close>, the payment is looked up by it, and the reference sent to the
  gateway is \<^verbatim>\<open>payment.chapa_reference or tx_ref\<close>.
\<close>

definition verify_try ::
  "gateway \<Rightarrow> payment \<Rightarrow> string \<Rightarrow> world \<Rightarrow> (py_exception + result) \<times> world" where
  "verify_try gw p tx_ref w =
     (case chapa_init gw of
        Some e \<Rightarrow> (Inl e, w)
      | None \<Rightarrow>
          (let reference = py_or (get_default (chapa_reference p) []) tx_ref;
               w1 = log_call (Verify_call reference) w
           in case chapa_verify_payment gw reference of
                Inl e \<Rightarrow> (Inl e, w1)
              | Inr res \<Rightarrow>
                  if vr_success res
                  then (let chapa_status = lower (get_default (vr_status res) ''pending'')
                        in if chapa_status = ''success''
                           then (let (p', w2) = update_payment_status p ''completed''
                                                  (no_kwargs\<lparr>kw_transaction_id := vr_reference res,
                                                             kw_payment_method := vr_method res\<rparr>) w1;
                                     w3 = delay (confirmation_task p' (vr_reference res)) w2
                                 in (Inr (Response HTTP_200_OK
                                       (Dict [(''success'', PBool True),
                                              (''status'', PStr ''completed''),
                                              (''message'', PStr ''Payment verified successfully'')])), w3))
                           else if chapa_status = ''failed''
                           then (let (p', w2) = update_payment_status p ''failed''
                                                  (no_kwargs\<lparr>kw_error_message := Some ''Payment failed''\<rparr>) w1
                                 in (Inr (Response HTTP_400_BAD_REQUEST
                                       (Dict [(''success'', PBool False),
                                              (''status'', PStr ''failed''),
                                              (''message'', PStr ''Payment failed'')])), w2))
                           else (Inr (Response HTTP_200_OK
                                       (Dict [(''success'', PBool True),
                                              (''status'', PStr ''pending''),
                                              (''message'', PStr ''Payment verification pending'')])), w1))
                  else (Inr (Response HTTP_400_BAD_REQUEST
                              (Dict [(''error'', PStr (get_default (vr_error res)
                                                        ''Verification failed''))])), w1)))"

definition verify :: "gateway \<Rightarrow> world \<Rightarrow> string option \<Rightarrow> result \<times> world" where
  "verify gw w request_tx_ref =
     (let tx_ref = get_default request_tx_ref []
      in if tx_ref = []
         then (Response HTTP_400_BAD_REQUEST
                 (Dict [(''error'', PStr ''tx_ref parameter is required'')]), w)
         else
           (case find (\<lambda>r. payment_id r = tx_ref) (payments w) of
              None \<Rightarrow> (Response HTTP_404_NOT_FOUND (Dict [(''error'', PStr ''Payment not found'')]), w)
            | Some p \<Rightarrow>
                (case verify_try gw p tx_ref w of
                   (Inr r, w2) \<Rightarrow> (r, w2)
                 | (Inl e, w2) \<Rightarrow>
                     (Response HTTP_500_INTERNAL_SERVER_ERROR
                        (Dict [(''error'', PStr (str_exc e))]), w2))))"

section \<open>Email tasks\<close>

text \<open>
  The three tasks of \<^verbatim>\<open>listings/tasks.py\<close> are declared with \<^verbatim>\<open>max_retries=3\<close> and share one
  body: send the mail and log it, or log the error and call
  \<^verbatim>\<open>self.retry(exc=exc, countdown=60 * (2 ** self.request.retries))\<close>. The task queue's
  \<^verbatim>\<open>retry\<close> raises the exception itself once \<^verbatim>\<open>request.retries + 1\<close> exceeds \<^verbatim>\<open>max_retries\<close>, and
  otherwise schedules the task again after the countdown, with one more retry counted.
  \<open>send_mail n\<close> is what sending does in the run with \<^verbatim>\<open>request.retries = n\<close>: \<open>None\<close> when the
  mail goes out, the exception's text when it fails.
\<close>

definition max_retries :: nat where
  "max_retries = 3"

definition countdown :: "nat \<Rightarrow> nat" where
  "countdown retries = 60 * 2 ^ retries"

datatype event = Log_info | Log_error string | Retry_after nat

datatype task_end = Email_sent | Task_failed string

function run_email_task :: "(nat \<Rightarrow> string option) \<Rightarrow> nat \<Rightarrow> event list \<times> task_end" where
  "run_email_task send_mail retries =
     (case send_mail retries of
        None \<Rightarrow> ([Log_info], Email_sent)
      | Some exc \<Rightarrow>
          if retries + 1 > max_retries
          then ([Log_error exc], Task_failed exc)
          else (let (evs, r) = run_email_task send_mail (retries + 1)
                in (Log_error exc # Retry_after (countdown retries) # evs, r)))"
  by pat_completeness auto
termination
  by (relation "measure (\<lambda>(s, n). max_retries + 1 - n)") auto

declare run_email_task.simps [simp del]

section \<open>The worker\<close>

text \<open>
  \<^verbatim>\<open>task.delay(...)\<close> in a view only puts a message in the queue. A worker takes the first
  message and runs its task, with no retry counted at the start. What the run logs and how
  it ends stay with the worker; the tables are not touched.
\<close>

definition worker ::
  "(nat \<Rightarrow> string option) \<Rightarrow> world \<Rightarrow> (event list \<times> task_end) option \<times> world" where
  "worker send_mail w =
     (case task_queue w of
        [] \<Rightarrow> (None, w)
      | t # ts \<Rightarrow> (Some (run_email_task send_mail 0), w\<lparr>task_queue := ts\<rparr>))"

text \<open>A verification request followed by the worker's run of what it queued.\<close>

definition verify_status_then_worker ::
  "gateway \<Rightarrow> (nat \<Rightarrow> string option) \<Rightarrow> world \<Rightarrow> payment \<Rightarrow> user
     \<Rightarrow> result \<times> (event list \<times> task_end) option \<times> world" where
  "verify_status_then_worker gw send_mail w p request_user =
     (let (resp, w1) = verify_status gw w p request_user
      in (resp, worker send_mail w1))"

section \<open>Observations and sample data\<close>

text \<open>
  A response succeeds when its status code is a 2xx code, and is forbidden when the view
  raised \<^verbatim>\<open>PermissionDenied\<close>. The success notifications of a world are the payment
  confirmation tasks in its queue.
\<close>

definition is_success :: "result \<Rightarrow> bool" where
  "is_success r = (case r of Raised _ \<Rightarrow> False | Response code _ \<Rightarrow> 200 \<le> code \<and> code < 300)"

definition is_forbidden :: "result \<Rightarrow> bool" where
  "is_forbidden r = (case r of Raised (PermissionDenied m) \<Rightarrow> True | _ \<Rightarrow> False)"

definition is_confirmation :: "task \<Rightarrow> bool" where
  "is_confirmation t =
     (case t of Send_payment_confirmation_email _ \<Rightarrow> True | Send_payment_failure_email _ \<Rightarrow> False)"

definition success_notifications :: "world \<Rightarrow> nat" where
  "success_notifications w = length (filter is_confirmation (task_queue w))"

text \<open>
  Two requests in sequence: the second request reads the payment again from the database
  the first one left.
\<close>

definition verify_status_twice ::
  "gateway \<Rightarrow> gateway \<Rightarrow> world \<Rightarrow> payment \<Rightarrow> user \<Rightarrow> (result \<times> world) option" where
  "verify_status_twice gw1 gw2 w p request_user =
     (let (r1, w1) = verify_status gw1 w p request_user
      in case find (\<lambda>r. payment_id r = payment_id p) (payments w1) of
           None \<Rightarrow> None
         | Some p1 \<Rightarrow> Some (verify_status gw2 w1 p1 request_user))"

definition verify_twice :: "gateway \<Rightarrow> gateway \<Rightarrow> world \<Rightarrow> string option \<Rightarrow> result \<times> world" where
  "verify_twice gw1 gw2 w request_tx_ref =
     (let (r1, w1) = verify gw1 w request_tx_ref in verify gw2 w1 request_tx_ref)"

text \<open>
  What a verification does when the gateway reports success: the payment is saved as
  \<^verbatim>\<open>completed\<close> and a confirmation task is queued, whatever the payment's status was.
\<close>

definition completed :: "payment \<Rightarrow> verify_result \<Rightarrow> payment" where
  "completed p res =
     p\<lparr>payment_status := ''completed'',
       transaction_id := (case vr_reference res of None \<Rightarrow> transaction_id p | Some t \<Rightarrow> Some t),
       payment_method := (case vr_method res of None \<Rightarrow> payment_method p | Some m \<Rightarrow> Some m)\<rparr>"







fun delays :: "event list \<Rightarrow> nat list" where
  "delays [] = []"
| "delays (Retry_after d # evs) = d # delays evs"
| "delays (e # evs) = delays evs"

fun errors_logged :: "event list \<Rightarrow> nat" where
  "errors_logged [] = 0"
| "errors_logged (Log_error m # evs) = Suc (errors_logged evs)"
| "errors_logged (e # evs) = errors_logged evs"

definition alice :: user where
  "alice = \<lparr>pk = 1, username = ''alice'', first_name = ''Alice'', email = ''alice@example.com''\<rparr>"

definition bob :: user where
  "bob = \<lparr>pk = 2, username = ''bob'', first_name = [], email = ''bob@example.com''\<rparr>"

definition carol :: user where
  "carol = \<lparr>pk = 3, username = ''carol'', first_name = ''Carol'', email = ''carol@example.com''\<rparr>"

definition villa :: listing where
  "villa = \<lparr>listing_id = ''L1'', host = bob, title = ''Villa'', location = ''Accra'',
            price_per_night = 100\<rparr>"

definition stay :: booking where
  "stay = \<lparr>booking_id = ''B1'', guest = alice, listing = villa, check_in_date = ymd 2025 6 1,
           check_out_date = ymd 2025 6 4, total_price = 300, booking_status = ''pending''\<rparr>"

definition stay_payment :: payment where
  "stay_payment = \<lparr>payment_id = ''P1'', booking = stay, amount = 300, currency = ''ETB'',
     payment_status = ''pending'', chapa_reference = None, transaction_id = None,
     payment_method = None, error_message = None\<rparr>"

definition initiated_payment :: payment where
  "initiated_payment = stay_payment\<lparr>chapa_reference := Some ''TX1''\<rparr>"

definition db_empty :: world where
  "db_empty = \<lparr>listings = [villa], bookings = [], payments = [], task_queue = [],
                gateway_calls = [], default_currency = ''ETB''\<rparr>"

definition db0 :: world where
  "db0 = db_empty\<lparr>bookings := [stay], payments := [stay_payment]\<rparr>"

definition db1 :: world where
  "db1 = db_empty\<lparr>bookings := [stay], payments := [initiated_payment]\<rparr>"

definition june_request :: validated_data where
  "june_request = \<lparr>vd_check_in_date = ymd 2025 6 1, vd_check_out_date = ymd 2025 6 4,
                    vd_total_price = None\<rparr>"

definition checkout_ok :: initiate_result where
  "checkout_ok = \<lparr>ir_success = True, ir_checkout_url = Some ''https://checkout.chapa.co/TX1'',
                   ir_reference = Some ''TX1'', ir_error = None\<rparr>"

definition checkout_refused :: initiate_result where
  "checkout_refused = \<lparr>ir_success = False, ir_checkout_url = None, ir_reference = None,
                        ir_error = Some ''Invalid currency''\<rparr>"

definition verdict :: "string \<Rightarrow> verify_result" where
  "verdict s = \<lparr>vr_success = True, vr_status = Some s, vr_reference = Some ''TX1'',
                 vr_method = Some ''telebirr'', vr_amount = Some ''300'',
                 vr_received_amount = Some ''300'', vr_error = None\<rparr>"


definition gateway_returning :: "initiate_result \<Rightarrow> verify_result \<Rightarrow> gateway" where
  "gateway_returning ir vr =
     \<lparr>chapa_init = None, chapa_initiate_payment = (\<lambda>p b. Inr ir),
      chapa_verify_payment = (\<lambda>r. Inr vr)\<rparr>"




section \<open>Properties\<close>

subsection \<open>Saving and reading rows\<close>

lemma find_snoc_None:
  "find P xs = None \<Longrightarrow> find P (xs @ [y]) = (if P y then Some y else None)"
  by (induction xs) (auto split: if_splits)

lemma find_replace:
  "find (\<lambda>r. key r = k) xs \<noteq> None \<Longrightarrow> key x = k \<Longrightarrow>
   find (\<lambda>r. key r = k) (map (\<lambda>r. if key r = k then x else r) xs) = Some x"
  by (induction xs) auto

lemma find_save_booking:
  "find (\<lambda>r. booking_id r = booking_id b) (bookings (save_booking b w)) = Some b"
proof (cases "find (\<lambda>r. booking_id r = booking_id b) (bookings w)")
  case None
  then show ?thesis by (simp add: save_booking_def find_snoc_None)
next
  case (Some a)
  then show ?thesis
    using find_replace [of booking_id "booking_id b" "bookings w" b]
    by (simp add: save_booking_def)
qed

lemma find_save_payment:
  "find (\<lambda>r. payment_id r = payment_id p) (payments (save_payment p w)) = Some p"
proof (cases "find (\<lambda>r. payment_id r = payment_id p) (payments w)")
  case None
  then show ?thesis by (simp add: save_payment_def find_snoc_None)
next
  case (Some a)
  then show ?thesis
    using find_replace [of payment_id "payment_id p" "payments w" p]
    by (simp add: save_payment_def)
qed

lemma save_payment_other_fields [simp]:
  "task_queue (save_payment p w) = task_queue w"
  "gateway_calls (save_payment p w) = gateway_calls w"
  "bookings (save_payment p w) = bookings w"
  by (simp_all add: save_payment_def)

lemma log_call_fields [simp]:
  "payments (log_call c w) = payments w"
  "bookings (log_call c w) = bookings w"
  "task_queue (log_call c w) = task_queue w"
  "gateway_calls (log_call c w) = gateway_calls w @ [c]"
  by (simp_all add: log_call_def)

lemma delay_fields [simp]:
  "payments (delay t w) = payments w"
  "bookings (delay t w) = bookings w"
  "task_queue (delay t w) = task_queue w @ [t]"
  "gateway_calls (delay t w) = gateway_calls w"
  by (simp_all add: delay_def)

lemma update_payment_status_fields [simp]:
  "task_queue (snd (update_payment_status p s kw w)) = task_queue w"
  "gateway_calls (snd (update_payment_status p s kw w)) = gateway_calls w"
  "bookings (snd (update_payment_status p s kw w)) = bookings w"
  by (simp_all add: update_payment_status_def Let_def)

lemma update_payment_status_saved:
  "find (\<lambda>r. payment_id r = payment_id p) (payments (snd (update_payment_status p s kw w)))
     = Some (fst (update_payment_status p s kw w))"
  using find_save_payment [of "fst (update_payment_status p s kw w)" w]
  by (simp add: update_payment_status_def Let_def)

subsection \<open>Resolving a booking\<close>

lemma find_filter_distinct:
  "distinct (map key xs) \<Longrightarrow> x \<in> set xs \<Longrightarrow>
   find (\<lambda>r. key r = key x) (filter Q xs) = (if Q x then Some x else None)"
proof (induction xs)
  case Nil
  then show ?case by simp
next
  case (Cons a xs)
  show ?case
  proof (cases "x = a")
    case True
    have "find (\<lambda>r. key r = key a) (filter Q xs) = None"
      using Cons.prems(1) by (auto simp: find_None_iff intro: rev_image_eqI)
    with True show ?thesis by simp
  next
    case False
    with Cons.prems have "x \<in> set xs" and "key a \<noteq> key x"
      by auto
    with Cons show ?thesis by simp
  qed
qed

lemma get_object_stored:
  "distinct (map booking_id (bookings w)) \<Longrightarrow> b \<in> set (bookings w) \<Longrightarrow>
   get_object w (booking_id b) u =
     (if pk (guest b) = pk u \<or> pk (host (listing b)) = pk u then Some b else None)"
  using find_filter_distinct
          [of booking_id "bookings w" b "\<lambda>b. pk (guest b) = pk u \<or> pk (host (listing b)) = pk u"]
  by (simp add: get_object_def get_queryset_def)

lemma get_object_Some:
  "get_object w k u = Some b \<Longrightarrow>
   (pk (guest b) = pk u \<or> pk (host (listing b)) = pk u) \<and> booking_id b = k \<and> b \<in> set (bookings w)"
  by (auto simp: get_object_def get_queryset_def find_Some_iff dest: nth_mem)

subsection \<open>Cancelling and confirming a booking\<close>

text \<open>
  C4, as the code has it. Let \<open>b\<close> be a booking of the database, whose primary keys are
  distinct. For an actor who is neither the booking's guest nor the listing's host the
  lookup finds nothing and \<^verbatim>\<open>cancel\<close> raises \<^verbatim>\<open>Http404\<close>; \<^verbatim>\<open>PermissionDenied\<close> is never the
  outcome of \<^verbatim>\<open>cancel\<close>, for any request. For the guest or the host, \<^verbatim>\<open>cancel\<close> answers 400 when
  the status is neither \<^verbatim>\<open>pending\<close> nor \<^verbatim>\<open>confirmed\<close>, and otherwise saves the booking with
  status \<^verbatim>\<open>cancelled\<close>. A booking that is already \<^verbatim>\<open>cancelled\<close> is never cancelled again,
  whoever asks, and every failure leaves the world as it was.
\<close>

theorem cancel_outcomes:
  assumes "distinct (map booking_id (bookings w))" and "b \<in> set (bookings w)"
  shows "(pk (guest b) \<noteq> pk u \<and> pk (host (listing b)) \<noteq> pk u \<longrightarrow>
            cancel w (booking_id b) u = (Raised Http404, w))
       \<and> ((pk (guest b) = pk u \<or> pk (host (listing b)) = pk u)
            \<and> booking_status b \<noteq> ''pending'' \<and> booking_status b \<noteq> ''confirmed'' \<longrightarrow>
            cancel w (booking_id b) u = (Response HTTP_400_BAD_REQUEST
              (Dict [(''detail'', PStr (''Cannot cancel a '' @ booking_status b @ '' booking.''))]), w))
       \<and> (booking_status b = ''cancelled'' \<longrightarrow>
            \<not> is_success (fst (cancel w (booking_id b) u)) \<and> snd (cancel w (booking_id b) u) = w)
       \<and> ((pk (guest b) = pk u \<or> pk (host (listing b)) = pk u)
            \<and> (booking_status b = ''pending'' \<or> booking_status b = ''confirmed'') \<longrightarrow>
            cancel w (booking_id b) u =
              (Response HTTP_200_OK (Booking_data (b\<lparr>booking_status := ''cancelled''\<rparr>)),
               save_booking (b\<lparr>booking_status := ''cancelled''\<rparr>) w)
          \<and> map_option booking_status
               (find (\<lambda>r. booking_id r = booking_id b) (bookings (snd (cancel w (booking_id b) u))))
              = Some ''cancelled'')
       \<and> \<not> is_forbidden (fst (cancel w' k u'))"
proof -
  note g = get_object_stored [OF assms, of u]
  have outsider: "cancel w (booking_id b) u = (Raised Http404, w)"
    if "pk (guest b) \<noteq> pk u \<and> pk (host (listing b)) \<noteq> pk u"
    using that g by (simp add: cancel_def)
  have bad: "cancel w (booking_id b) u = (Response HTTP_400_BAD_REQUEST
              (Dict [(''detail'', PStr (''Cannot cancel a '' @ booking_status b @ '' booking.''))]), w)"
    if "(pk (guest b) = pk u \<or> pk (host (listing b)) = pk u)
            \<and> booking_status b \<noteq> ''pending'' \<and> booking_status b \<noteq> ''confirmed''"
    using that g by (auto simp: cancel_def)
  have again: "\<not> is_success (fst (cancel w (booking_id b) u)) \<and> snd (cancel w (booking_id b) u) = w"
    if "booking_status b = ''cancelled''"
    using that g by (simp add: cancel_def is_success_def HTTP_400_BAD_REQUEST_def)
  have ok: "cancel w (booking_id b) u =
              (Response HTTP_200_OK (Booking_data (b\<lparr>booking_status := ''cancelled''\<rparr>)),
               save_booking (b\<lparr>booking_status := ''cancelled''\<rparr>) w)"
    if "(pk (guest b) = pk u \<or> pk (host (listing b)) = pk u)
            \<and> (booking_status b = ''pending'' \<or> booking_status b = ''confirmed'')"
    using that g by (auto simp: cancel_def Let_def)
  have saved: "map_option booking_status
               (find (\<lambda>r. booking_id r = booking_id b) (bookings (snd (cancel w (booking_id b) u))))
              = Some ''cancelled''"
    if "(pk (guest b) = pk u \<or> pk (host (listing b)) = pk u)
            \<and> (booking_status b = ''pending'' \<or> booking_status b = ''confirmed'')"
    using ok [OF that] find_save_booking [of "b\<lparr>booking_status := ''cancelled''\<rparr>" w] by simp
  have never: "\<not> is_forbidden (fst (cancel w' k u'))"
  proof (cases "get_object w' k u'")
    case None
    then show ?thesis by (simp add: cancel_def is_forbidden_def)
  next
    case (Some b')
    with get_object_Some [OF Some] show ?thesis
      by (auto simp: cancel_def is_forbidden_def Let_def)
  qed
  show ?thesis
    using outsider bad again ok saved never by blast
qed

theorem cancel_outcomes_witness:
  "cancel db0 ''B1'' carol = (Raised Http404, db0)
   \<and> cancel (db0\<lparr>bookings := [stay\<lparr>booking_status := ''cancelled''\<rparr>]\<rparr>) ''B1'' alice =
       (Response HTTP_400_BAD_REQUEST
          (Dict [(''detail'', PStr ''Cannot cancel a cancelled booking.'')]),
        db0\<lparr>bookings := [stay\<lparr>booking_status := ''cancelled''\<rparr>]\<rparr>)
   \<and> \<not> is_success (fst (cancel (db0\<lparr>bookings := [stay\<lparr>booking_status := ''cancelled''\<rparr>]\<rparr>) ''B1'' bob))
   \<and> cancel db0 ''B1'' bob =
       (Response HTTP_200_OK (Booking_data (stay\<lparr>booking_status := ''cancelled''\<rparr>)),
        db0\<lparr>bookings := [stay\<lparr>booking_status := ''cancelled''\<rparr>]\<rparr>)
   \<and> \<not> is_forbidden (fst (cancel db0 ''B1'' carol))"
proof -
  let ?done = "stay\<lparr>booking_status := ''cancelled''\<rparr>"
  let ?db = "db0\<lparr>bookings := [?done]\<rparr>"
  have d0: "distinct (map booking_id (bookings db0))" "stay \<in> set (bookings db0)"
    by (simp_all add: db0_def db_empty_def)
  have d1: "distinct (map booking_id (bookings ?db))" "?done \<in> set (bookings ?db)"
    by simp_all
  from cancel_outcomes [OF d0, where u = carol and w' = db0 and k = "''B1''" and u' = carol]
       cancel_outcomes [OF d1, where u = alice]
       cancel_outcomes [OF d1, where u = bob]
       cancel_outcomes [OF d0, where u = bob]
  show ?thesis
    by (simp add: stay_def alice_def bob_def carol_def villa_def db0_def db_empty_def save_booking_def
          is_success_def is_forbidden_def HTTP_400_BAD_REQUEST_def)
qed

text \<open>
  C4, as the claim states it, fails: carol is neither the guest nor the host of the stay,
  and her request to cancel it is answered with \<^verbatim>\<open>Http404\<close>, not with \<^verbatim>\<open>PermissionDenied\<close>.
\<close>

theorem cancel_outsider_counterexample:
  "pk (guest stay) \<noteq> pk carol \<and> pk (host (listing stay)) \<noteq> pk carol
   \<and> get_object db0 ''B1'' alice = Some stay
   \<and> cancel db0 ''B1'' carol = (Raised Http404, db0)
   \<and> \<not> is_forbidden (fst (cancel db0 ''B1'' carol))"
  by (simp add: cancel_def get_object_def get_queryset_def db0_def db_empty_def stay_def villa_def
        alice_def bob_def carol_def is_forbidden_def)

text \<open>
  C5, as the code has it. Let \<open>b\<close> be a booking of the database, whose primary keys are
  distinct. \<^verbatim>\<open>confirm\<close> raises \<^verbatim>\<open>Http404\<close> for an actor who is neither the booking's guest nor
  the listing's host, raises \<^verbatim>\<open>PermissionDenied\<close> for the guest who is not the host, and
  answers 400 for the host when the status is not \<^verbatim>\<open>pending\<close>; in all three cases the world
  is as it was. For the host and a pending booking it saves the booking with status
  \<^verbatim>\<open>confirmed\<close>. So it succeeds only for the host on a pending booking.
\<close>

theorem confirm_outcomes:
  assumes "distinct (map booking_id (bookings w))" and "b \<in> set (bookings w)"
  shows "(pk (guest b) \<noteq> pk u \<and> pk (host (listing b)) \<noteq> pk u \<longrightarrow>
            confirm w (booking_id b) u = (Raised Http404, w))
       \<and> (pk (guest b) = pk u \<and> pk (host (listing b)) \<noteq> pk u \<longrightarrow>
            confirm w (booking_id b) u =
              (Raised (PermissionDenied ''Only the listing host can confirm bookings.''), w))
       \<and> (pk (host (listing b)) = pk u \<and> booking_status b \<noteq> ''pending'' \<longrightarrow>
            confirm w (booking_id b) u = (Response HTTP_400_BAD_REQUEST
              (Dict [(''detail'', PStr (''Cannot confirm a '' @ booking_status b @ '' booking.''))]), w))
       \<and> (pk (host (listing b)) = pk u \<and> booking_status b = ''pending'' \<longrightarrow>
            confirm w (booking_id b) u =
              (Response HTTP_200_OK (Booking_data (b\<lparr>booking_status := ''confirmed''\<rparr>)),
               save_booking (b\<lparr>booking_status := ''confirmed''\<rparr>) w)
          \<and> map_option booking_status
               (find (\<lambda>r. booking_id r = booking_id b) (bookings (snd (confirm w (booking_id b) u))))
              = Some ''confirmed'')
       \<and> (is_success (fst (confirm w (booking_id b) u)) \<longrightarrow>
            booking_status b = ''pending'' \<and> pk (host (listing b)) = pk u)"
proof -
  note g = get_object_stored [OF assms, of u]
  have outsider: "confirm w (booking_id b) u = (Raised Http404, w)"
    if "pk (guest b) \<noteq> pk u \<and> pk (host (listing b)) \<noteq> pk u"
    using that g by (simp add: confirm_def)
  have guest: "confirm w (booking_id b) u =
              (Raised (PermissionDenied ''Only the listing host can confirm bookings.''), w)"
    if "pk (guest b) = pk u \<and> pk (host (listing b)) \<noteq> pk u"
    using that g by (simp add: confirm_def)
  have bad: "confirm w (booking_id b) u = (Response HTTP_400_BAD_REQUEST
              (Dict [(''detail'', PStr (''Cannot confirm a '' @ booking_status b @ '' booking.''))]), w)"
    if "pk (host (listing b)) = pk u \<and> booking_status b \<noteq> ''pending''"
    using that g by (simp add: confirm_def)
  have ok: "confirm w (booking_id b) u =
              (Response HTTP_200_OK (Booking_data (b\<lparr>booking_status := ''confirmed''\<rparr>)),
               save_booking (b\<lparr>booking_status := ''confirmed''\<rparr>) w)"
    if "pk (host (listing b)) = pk u \<and> booking_status b = ''pending''"
    using that g by (simp add: confirm_def Let_def)
  have saved: "map_option booking_status
               (find (\<lambda>r. booking_id r = booking_id b) (bookings (snd (confirm w (booking_id b) u))))
              = Some ''confirmed''"
    if "pk (host (listing b)) = pk u \<and> booking_status b = ''pending''"
    using ok [OF that] find_save_booking [of "b\<lparr>booking_status := ''confirmed''\<rparr>" w] by simp
  have only: "booking_status b = ''pending'' \<and> pk (host (listing b)) = pk u"
    if "is_success (fst (confirm w (booking_id b) u))"
    using that g
    by (auto simp: confirm_def is_success_def HTTP_400_BAD_REQUEST_def split: if_splits)
  show ?thesis
    using outsider guest bad ok saved only by blast
qed

theorem confirm_outcomes_witness:
  "confirm db0 ''B1'' carol = (Raised Http404, db0)
   \<and> confirm db0 ''B1'' alice =
       (Raised (PermissionDenied ''Only the listing host can confirm bookings.''), db0)
   \<and> confirm (db0\<lparr>bookings := [stay\<lparr>booking_status := ''confirmed''\<rparr>]\<rparr>) ''B1'' bob =
       (Response HTTP_400_BAD_REQUEST
          (Dict [(''detail'', PStr ''Cannot confirm a confirmed booking.'')]),
        db0\<lparr>bookings := [stay\<lparr>booking_status := ''confirmed''\<rparr>]\<rparr>)
   \<and> confirm db0 ''B1'' bob =
       (Response HTTP_200_OK (Booking_data (stay\<lparr>booking_status := ''confirmed''\<rparr>)),
        db0\<lparr>bookings := [stay\<lparr>booking_status := ''confirmed''\<rparr>]\<rparr>)
   \<and> is_success (fst (confirm db0 ''B1'' bob))"
proof -
  let ?done = "stay\<lparr>booking_status := ''confirmed''\<rparr>"
  let ?db = "db0\<lparr>bookings := [?done]\<rparr>"
  have d0: "distinct (map booking_id (bookings db0))" "stay \<in> set (bookings db0)"
    by (simp_all add: db0_def db_empty_def)
  have d1: "distinct (map booking_id (bookings ?db))" "?done \<in> set (bookings ?db)"
    by simp_all
  from confirm_outcomes [OF d0, where u = carol]
       confirm_outcomes [OF d0, where u = alice]
       confirm_outcomes [OF d1, where u = bob]
       confirm_outcomes [OF d0, where u = bob]
  show ?thesis
    by (simp add: stay_def alice_def bob_def carol_def villa_def db0_def db_empty_def save_booking_def
          is_success_def HTTP_200_OK_def)
qed

text \<open>
  C5, as the claim states it, fails: carol is neither the guest nor the host of the stay,
  and her request to confirm it fails with \<^verbatim>\<open>Http404\<close>, which is neither \<^verbatim>\<open>PermissionDenied\<close>
  nor the 400 of a status that is not \<^verbatim>\<open>pending\<close>.
\<close>

theorem confirm_outsider_counterexample:
  "pk (guest stay) \<noteq> pk carol \<and> pk (host (listing stay)) \<noteq> pk carol
   \<and> get_object db0 ''B1'' bob = Some stay
   \<and> confirm db0 ''B1'' carol = (Raised Http404, db0)
   \<and> \<not> is_forbidden (fst (confirm db0 ''B1'' carol))
   \<and> fst (confirm db0 ''B1'' carol) \<noteq>
       Response HTTP_400_BAD_REQUEST
         (Dict [(''detail'', PStr (''Cannot confirm a '' @ booking_status stay @ '' booking.''))])"
  by (simp add: confirm_def get_object_def get_queryset_def db0_def db_empty_def stay_def villa_def
        alice_def bob_def carol_def is_forbidden_def)

subsection \<open>Creating a booking\<close>

text \<open>
  C3. A request whose check-out date is not after its check-in date fails with
  \<^verbatim>\<open>InvalidRange\<close>, and the world is the one before the request: no booking and no payment
  has been created.
\<close>

theorem create_invalid_range:
  "vd_check_out_date vd \<le> vd_check_in_date vd \<Longrightarrow>
   create vd lid u new_booking_id new_payment_id w = (Some InvalidRange, w)"
  by (simp add: create_def is_valid_def)

theorem create_invalid_range_witness:
  "create (june_request\<lparr>vd_check_out_date := ymd 2025 6 1\<rparr>) ''L1'' alice ''B2'' ''P2'' db_empty
     = (Some InvalidRange, db_empty)"
  using create_invalid_range
          [of "june_request\<lparr>vd_check_out_date := ymd 2025 6 1\<rparr>" "''L1''" alice "''B2''" "''P2''" db_empty]
  by (simp add: june_request_def)

text \<open>
  C2. When no total price is supplied, the listing exists and the stay has at least one
  night, the booking is created with total price \<^verbatim>\<open>price_per_night\<close> times the number of
  nights, and its payment is created with that amount and status \<^verbatim>\<open>pending\<close>.
\<close>

theorem create_computes_total_price:
  assumes "vd_total_price vd = None"
    and "1 \<le> vd_check_out_date vd - vd_check_in_date vd"
    and "find (\<lambda>l. listing_id l = lid) (listings w) = Some l"
  shows "(let nights = vd_check_out_date vd - vd_check_in_date vd;
              b = \<lparr>booking_id = new_booking_id, guest = u, listing = l,
                   check_in_date = vd_check_in_date vd, check_out_date = vd_check_out_date vd,
                   total_price = price_per_night l * of_int nights,
                   booking_status = ''pending''\<rparr>;
              p = \<lparr>payment_id = new_payment_id, booking = b,
                   amount = price_per_night l * of_int nights,
                   currency = default_currency w, payment_status = ''pending'',
                   chapa_reference = None, transaction_id = None, payment_method = None,
                   error_message = None\<rparr>
          in create vd lid u new_booking_id new_payment_id w =
               (None, w\<lparr>bookings := bookings w @ [b], payments := payments w @ [p]\<rparr>))"
  using assms
  by (simp add: create_def is_valid_def perform_create_def serializer_save_def
        create_payment_for_booking_def Let_def)

lemma three_nights: "ymd 2025 6 4 - ymd 2025 6 1 = 3"
  by (simp add: ymd_def)

theorem create_computes_total_price_witness:
  "create june_request ''L1'' alice ''B2'' ''P2'' db_empty =
     (None, db_empty
       \<lparr>bookings := [stay\<lparr>booking_id := ''B2''\<rparr>],
        payments := [stay_payment\<lparr>payment_id := ''P2'', booking := stay\<lparr>booking_id := ''B2''\<rparr>\<rparr>]\<rparr>)
   \<and> total_price (stay\<lparr>booking_id := ''B2''\<rparr>) = 300
   \<and> amount (stay_payment\<lparr>payment_id := ''P2''\<rparr>) = 300
   \<and> payment_status (stay_payment\<lparr>payment_id := ''P2''\<rparr>) = ''pending''"
proof -
  have h1: "vd_total_price june_request = None" by (simp add: june_request_def)
  have h2: "1 \<le> vd_check_out_date june_request - vd_check_in_date june_request"
    by (simp add: june_request_def three_nights)
  have h3: "find (\<lambda>l. listing_id l = ''L1'') (listings db_empty) = Some villa"
    by (simp add: db_empty_def villa_def)
  from create_computes_total_price [OF h1 h2 h3, of "''B2''" alice "''P2''"]
  show ?thesis
    by (simp add: Let_def june_request_def three_nights stay_def stay_payment_def db_empty_def villa_def)
qed

subsection \<open>Initiating a payment\<close>

text \<open>
  C6, as the code has it. Let \<open>b\<close> be a booking of the database, whose primary keys are
  distinct. \<^verbatim>\<open>initiate_payment\<close> raises \<^verbatim>\<open>Http404\<close> for an actor who is neither the booking's
  guest nor the listing's host, raises \<^verbatim>\<open>PermissionDenied\<close> for the host who is not the guest,
  and for the guest answers 400 when the booking's payment is not \<^verbatim>\<open>pending\<close>. In all three
  cases the world is unchanged: no request has been made to the gateway.
\<close>

theorem initiate_payment_guards:
  assumes "distinct (map booking_id (bookings w))" and "b \<in> set (bookings w)"
  shows "(pk (guest b) \<noteq> pk u \<and> pk (host (listing b)) \<noteq> pk u \<longrightarrow>
            initiate_payment gw w (booking_id b) u new_payment_id = (Raised Http404, w))
       \<and> (pk (guest b) \<noteq> pk u \<and> pk (host (listing b)) = pk u \<longrightarrow>
            initiate_payment gw w (booking_id b) u new_payment_id =
              (Raised (PermissionDenied ''You can only initiate payment for your own bookings.''), w))
       \<and> (pk (guest b) = pk u
            \<and> find (\<lambda>r. booking_id (booking r) = booking_id b) (payments w) = Some p
            \<and> payment_status p \<noteq> ''pending'' \<longrightarrow>
            initiate_payment gw w (booking_id b) u new_payment_id =
              (Response HTTP_400_BAD_REQUEST
                 (Dict [(''detail'',
                    PStr (''Cannot initiate payment for '' @ payment_status p @ '' payment.''))]), w)
          \<and> gateway_calls (snd (initiate_payment gw w (booking_id b) u new_payment_id))
              = gateway_calls w)"
  using get_object_stored [OF assms, of u]
  by (simp add: initiate_payment_def)

theorem initiate_payment_guards_witness:
  "initiate_payment (gateway_returning checkout_ok (verdict ''success'')) db0 ''B1'' carol ''P2'' =
     (Raised Http404, db0)
   \<and> initiate_payment (gateway_returning checkout_ok (verdict ''success'')) db0 ''B1'' bob ''P2'' =
     (Raised (PermissionDenied ''You can only initiate payment for your own bookings.''), db0)
   \<and> initiate_payment (gateway_returning checkout_ok (verdict ''success''))
        (db0\<lparr>payments := [stay_payment\<lparr>payment_status := ''failed''\<rparr>]\<rparr>) ''B1'' alice ''P2'' =
     (Response HTTP_400_BAD_REQUEST
        (Dict [(''detail'', PStr ''Cannot initiate payment for failed payment.'')]),
      db0\<lparr>payments := [stay_payment\<lparr>payment_status := ''failed''\<rparr>]\<rparr>)
   \<and> gateway_calls (snd (initiate_payment (gateway_returning checkout_ok (verdict ''success''))
        (db0\<lparr>payments := [stay_payment\<lparr>payment_status := ''failed''\<rparr>]\<rparr>) ''B1'' alice ''P2'')) = []"
proof -
  let ?gw = "gateway_returning checkout_ok (verdict ''success'')"
  let ?db = "db0\<lparr>payments := [stay_payment\<lparr>payment_status := ''failed''\<rparr>]\<rparr>"
  have d0: "distinct (map booking_id (bookings db0))" "stay \<in> set (bookings db0)"
    by (simp_all add: db0_def db_empty_def)
  have d1: "distinct (map booking_id (bookings ?db))" "stay \<in> set (bookings ?db)"
    by (simp_all add: db0_def db_empty_def)
  from initiate_payment_guards [OF d0, where u = carol and gw = ?gw and new_payment_id = "''P2''"]
       initiate_payment_guards [OF d0, where u = bob and gw = ?gw and new_payment_id = "''P2''"]
       initiate_payment_guards
         [OF d1, where u = alice and gw = ?gw and new_payment_id = "''P2''"
            and p = "stay_payment\<lparr>payment_status := ''failed''\<rparr>"]
  show ?thesis
    by (simp add: stay_def alice_def bob_def carol_def villa_def db0_def db_empty_def stay_payment_def)
qed

text \<open>
  C6, as the claim states it, fails: carol is not the guest of the stay, and her request to
  pay for it is answered with \<^verbatim>\<open>Http404\<close>, not with \<^verbatim>\<open>PermissionDenied\<close>.
\<close>

theorem initiate_payment_outsider_counterexample:
  "pk (guest stay) \<noteq> pk carol
   \<and> get_object db0 ''B1'' alice = Some stay
   \<and> initiate_payment (gateway_returning checkout_ok (verdict ''success'')) db0 ''B1'' carol ''P2''
       = (Raised Http404, db0)
   \<and> \<not> is_forbidden
         (fst (initiate_payment (gateway_returning checkout_ok (verdict ''success''))
                 db0 ''B1'' carol ''P2''))"
  by (simp add: initiate_payment_def get_object_def get_queryset_def db0_def db_empty_def stay_def
        villa_def alice_def bob_def carol_def is_forbidden_def)

text \<open>
  C7. Let \<open>b\<close> be a booking of the database, whose primary keys are distinct. For its
  guest and a pending payment, once the client is constructed: when the gateway
  returns success with a reference, the payment is saved with that reference and status
  \<^verbatim>\<open>pending\<close>, and the response carries the checkout URL, the payment id, the amount and the
  currency; when the gateway returns failure, the payment is saved with status \<^verbatim>\<open>failed\<close>
  and the error message, and the response carries the error.
\<close>

theorem initiate_payment_outcomes:
  assumes "distinct (map booking_id (bookings w))" and "b \<in> set (bookings w)"
    and "pk (guest b) = pk u"
    and "find (\<lambda>r. booking_id (booking r) = booking_id b) (payments w) = Some p"
    and "payment_status p = ''pending''"
    and "chapa_init gw = None"
    and "chapa_initiate_payment gw p b = Inr res"
  shows "(ir_success res \<and> ir_reference res = Some reference \<longrightarrow>
            fst (initiate_payment gw w (booking_id b) u new_payment_id) =
              Response HTTP_200_OK
                (Dict [(''success'', PBool True),
                       (''checkout_url'', opt_str (ir_checkout_url res)),
                       (''payment_id'', PStr (payment_id p)),
                       (''amount'', PStr_of_decimal (amount p)),
                       (''currency'', PStr (currency p))])
          \<and> find (\<lambda>r. payment_id r = payment_id p)
               (payments (snd (initiate_payment gw w (booking_id b) u new_payment_id))) =
              Some (p\<lparr>payment_status := ''pending'', chapa_reference := Some reference\<rparr>))
       \<and> (\<not> ir_success res \<longrightarrow>
            fst (initiate_payment gw w (booking_id b) u new_payment_id) =
              Response HTTP_400_BAD_REQUEST
                (Dict [(''success'', PBool False),
                       (''error'', PStr (get_default (ir_error res) ''Unknown error''))])
          \<and> find (\<lambda>r. payment_id r = payment_id p)
               (payments (snd (initiate_payment gw w (booking_id b) u new_payment_id))) =
              Some (p\<lparr>payment_status := ''failed'',
                      error_message := Some (get_default (ir_error res) ''Unknown error'')\<rparr>))"
proof -
  have g: "get_object w (booking_id b) u = Some b"
    using get_object_stored [OF assms(1,2), of u] assms(3) by simp
  let ?w1 = "log_call (Initiate_call (payment_id p) (booking_id b)) w"
  let ?kw1 = "no_kwargs\<lparr>kw_chapa_reference := ir_reference res\<rparr>"
  let ?kw2 = "no_kwargs\<lparr>kw_error_message := Some (get_default (ir_error res) ''Unknown error'')\<rparr>"
  have ok: "initiate_payment gw w (booking_id b) u new_payment_id =
      (Response HTTP_200_OK
         (Dict [(''success'', PBool True),
                (''checkout_url'', opt_str (ir_checkout_url res)),
                (''payment_id'', PStr (payment_id p)),
                (''amount'', PStr_of_decimal (amount p)),
                (''currency'', PStr (currency p))]),
       snd (update_payment_status p ''pending'' ?kw1 ?w1))" if "ir_success res"
    using assms(3-) g that
    by (simp add: initiate_payment_def initiate_payment_try_def Let_def split_beta
          update_payment_status_def)
  have bad: "initiate_payment gw w (booking_id b) u new_payment_id =
      (Response HTTP_400_BAD_REQUEST
         (Dict [(''success'', PBool False),
                (''error'', PStr (get_default (ir_error res) ''Unknown error''))]),
       snd (update_payment_status p ''failed'' ?kw2 ?w1))" if "\<not> ir_success res"
    using assms(3-) g that
    by (simp add: initiate_payment_def initiate_payment_try_def Let_def split_beta)
  have s1: "fst (update_payment_status p ''pending'' ?kw1 ?w1) =
              p\<lparr>payment_status := ''pending'', chapa_reference := Some reference\<rparr>"
    if "ir_reference res = Some reference"
    using that by (simp add: update_payment_status_def Let_def no_kwargs_def)
  have s2: "fst (update_payment_status p ''failed'' ?kw2 ?w1) =
              p\<lparr>payment_status := ''failed'',
                 error_message := Some (get_default (ir_error res) ''Unknown error'')\<rparr>"
    by (simp add: update_payment_status_def Let_def no_kwargs_def)
  show ?thesis
    using ok bad s1 s2
      update_payment_status_saved [of p "''pending''" ?kw1 ?w1]
      update_payment_status_saved [of p "''failed''" ?kw2 ?w1]
    by auto
qed

theorem initiate_payment_outcomes_witness:
  "fst (initiate_payment (gateway_returning checkout_ok (verdict ''success'')) db0 ''B1'' alice ''P2'') =
     Response HTTP_200_OK
       (Dict [(''success'', PBool True),
              (''checkout_url'', PStr ''https://checkout.chapa.co/TX1''),
              (''payment_id'', PStr ''P1''),
              (''amount'', PStr_of_decimal 300),
              (''currency'', PStr ''ETB'')])
   \<and> find (\<lambda>r. payment_id r = ''P1'')
        (payments (snd (initiate_payment (gateway_returning checkout_ok (verdict ''success''))
           db0 ''B1'' alice ''P2''))) = Some initiated_payment
   \<and> fst (initiate_payment (gateway_returning checkout_refused (verdict ''success'')) db0 ''B1'' alice ''P2'') =
     Response HTTP_400_BAD_REQUEST
       (Dict [(''success'', PBool False), (''error'', PStr ''Invalid currency'')])
   \<and> find (\<lambda>r. payment_id r = ''P1'')
        (payments (snd (initiate_payment (gateway_returning checkout_refused (verdict ''success''))
           db0 ''B1'' alice ''P2''))) =
      Some (stay_payment\<lparr>payment_status := ''failed'', error_message := Some ''Invalid currency''\<rparr>)"
proof -
  have d: "distinct (map booking_id (bookings db0))" "stay \<in> set (bookings db0)"
    by (simp_all add: db0_def db_empty_def)
  have h1: "pk (guest stay) = pk alice" by (simp add: stay_def)
  have h2: "find (\<lambda>r. booking_id (booking r) = booking_id stay) (payments db0) = Some stay_payment"
    by (simp add: db0_def db_empty_def stay_payment_def)
  have h3: "payment_status stay_payment = ''pending''" by (simp add: stay_payment_def)
  let ?ok = "gateway_returning checkout_ok (verdict ''success'')"
  let ?refused = "gateway_returning checkout_refused (verdict ''success'')"
  have h4: "chapa_init ?ok = None" "chapa_init ?refused = None"
    by (simp_all add: gateway_returning_def)
  have h5: "chapa_initiate_payment ?ok stay_payment stay = Inr checkout_ok"
    "chapa_initiate_payment ?refused stay_payment stay = Inr checkout_refused"
    by (simp_all add: gateway_returning_def)
  from initiate_payment_outcomes
         [where reference = "''TX1''" and new_payment_id = "''P2''", OF d h1 h2 h3 h4(1) h5(1)]
       initiate_payment_outcomes
         [where reference = "''TX1''" and new_payment_id = "''P2''", OF d h1 h2 h3 h4(2) h5(2)]
  show ?thesis
    by (simp add: checkout_ok_def checkout_refused_def initiated_payment_def stay_payment_def
          opt_str_def get_default_def stay_def)
qed

subsection \<open>Verifying a payment\<close>

text \<open>
  C10. For a guest or host and a payment whose reference is unset (\<open>None\<close> or empty),
  \<^verbatim>\<open>verify_status\<close> answers 400 with \<^verbatim>\<open>Payment has not been initiated yet.\<close> and leaves the
  world, and so the log of gateway requests, as it was. The callback \<^verbatim>\<open>verify\<close> on such a
  payment, once the client is constructed, asks the gateway about the caller's \<open>tx_ref\<close>.
\<close>

theorem unset_reference_paths:
  "((pk (guest (booking p)) = pk u \<or> pk (host (listing (booking p))) = pk u)
      \<and> (chapa_reference p = None \<or> chapa_reference p = Some []) \<longrightarrow>
        verify_status gw w p u =
          (Response HTTP_400_BAD_REQUEST
             (Dict [(''detail'', PStr ''Payment has not been initiated yet.'')]), w))
   \<and> (tx_ref \<noteq> [] \<and> find (\<lambda>r. payment_id r = tx_ref) (payments w) = Some p
      \<and> (chapa_reference p = None \<or> chapa_reference p = Some [])
      \<and> chapa_init gw = None \<longrightarrow>
        gateway_calls (snd (verify gw w (Some tx_ref))) = gateway_calls w @ [Verify_call tx_ref])"
proof (intro conjI impI)
  assume "(pk (guest (booking p)) = pk u \<or> pk (host (listing (booking p))) = pk u)
      \<and> (chapa_reference p = None \<or> chapa_reference p = Some [])"
  then show "verify_status gw w p u =
          (Response HTTP_400_BAD_REQUEST
             (Dict [(''detail'', PStr ''Payment has not been initiated yet.'')]), w)"
    by (auto simp: verify_status_def)
next
  assume a: "tx_ref \<noteq> [] \<and> find (\<lambda>r. payment_id r = tx_ref) (payments w) = Some p
      \<and> (chapa_reference p = None \<or> chapa_reference p = Some [])
      \<and> chapa_init gw = None"
  then have r: "py_or (get_default (chapa_reference p) []) tx_ref = tx_ref"
    by (auto simp: py_or_def get_default_def)
  have "gateway_calls (snd (verify_try gw p tx_ref w)) = gateway_calls w @ [Verify_call tx_ref]"
    using a r
    by (simp add: verify_try_def Let_def split_beta split: sum.splits)
  moreover have "snd (verify gw w (Some tx_ref)) = snd (verify_try gw p tx_ref w)"
    using a by (simp add: verify_def get_default_def split: prod.splits sum.splits)
  ultimately show "gateway_calls (snd (verify gw w (Some tx_ref))) = gateway_calls w @ [Verify_call tx_ref]"
    by simp
qed

theorem unset_reference_paths_witness:
  "verify_status (gateway_returning checkout_ok (verdict ''success'')) db0 stay_payment alice =
     (Response HTTP_400_BAD_REQUEST
        (Dict [(''detail'', PStr ''Payment has not been initiated yet.'')]), db0)
   \<and> gateway_calls (snd (verify (gateway_returning checkout_ok (verdict ''success'')) db0 (Some ''P1'')))
       = [Verify_call ''P1'']"
  using unset_reference_paths
          [where p = stay_payment and u = alice and w = db0 and tx_ref = "''P1''"
             and gw = "gateway_returning checkout_ok (verdict ''success'')"]
  by (simp add: stay_payment_def stay_def alice_def db0_def db_empty_def gateway_returning_def)











lemma completed_fields [simp]:
  "payment_id (completed p res) = payment_id p"
  "booking (completed p res) = booking p"
  "chapa_reference (completed p res) = chapa_reference p"
  "payment_status (completed p res) = ''completed''"
  by (simp_all add: completed_def)

lemma update_completed:
  "update_payment_status p ''completed''
     (no_kwargs\<lparr>kw_transaction_id := vr_reference res, kw_payment_method := vr_method res\<rparr>) w
   = (completed p res, save_payment (completed p res) w)"
  by (simp add: update_payment_status_def completed_def no_kwargs_def Let_def)

lemma verify_status_success:
  assumes "pk (guest (booking p)) = pk u \<or> pk (host (listing (booking p))) = pk u"
    and "chapa_reference p = Some r" and "r \<noteq> []"
    and "chapa_init gw = None" and "chapa_verify_payment gw r = Inr res"
    and "vr_success res" and "lower (get_default (vr_status res) ''pending'') = ''success''"
  shows "verify_status gw w p u =
           (Response HTTP_200_OK
              (Dict [(''success'', PBool True),
                     (''status'', PStr ''completed''),
                     (''message'', PStr ''Payment completed successfully''),
                     (''amount'', PStr (str_of (vr_amount res))),
                     (''received_amount'', PStr (str_of (vr_received_amount res))),
                     (''transaction_id'', opt_str (vr_reference res))]),
            delay (confirmation_task (completed p res) (vr_reference res))
              (save_payment (completed p res) (log_call (Verify_call r) w)))"
  using assms
  by (auto simp: verify_status_def verify_status_try_def Let_def update_completed)

lemma verify_success:
  assumes "tx_ref \<noteq> []" and "find (\<lambda>x. payment_id x = tx_ref) (payments w) = Some p"
    and "py_or (get_default (chapa_reference p) []) tx_ref = r"
    and "chapa_init gw = None" and "chapa_verify_payment gw r = Inr res"
    and "vr_success res" and "lower (get_default (vr_status res) ''pending'') = ''success''"
  shows "verify gw w (Some tx_ref) =
           (Response HTTP_200_OK
              (Dict [(''success'', PBool True),
                     (''status'', PStr ''completed''),
                     (''message'', PStr ''Payment verified successfully'')]),
            delay (confirmation_task (completed p res) (vr_reference res))
              (save_payment (completed p res) (log_call (Verify_call r) w)))"
  using assms
  by (simp add: verify_def verify_try_def Let_def update_completed get_default_def)

lemma find_key: "find (\<lambda>x. key x = k) xs = Some p \<Longrightarrow> key p = k"
  by (induction xs) (auto split: if_splits)

lemma success_notifications_delay:
  "success_notifications (delay (confirmation_task p t) w) = Suc (success_notifications w)"
  by (simp add: success_notifications_def confirmation_task_def is_confirmation_def)

lemma success_notifications_save [simp]:
  "success_notifications (save_payment p w) = success_notifications w"
  "success_notifications (log_call c w) = success_notifications w"
  by (simp_all add: success_notifications_def)

lemma find_after_success:
  "find (\<lambda>x. payment_id x = payment_id p) (payments (save_payment (completed p res) w))
     = Some (completed p res)"
  using find_save_payment [of "completed p res" w] by simp

lemma is_success_200 [simp]: "is_success (Response HTTP_200_OK body)"
  by (simp add: is_success_def HTTP_200_OK_def)

text \<open>
  C1, as the code has it. Neither \<^verbatim>\<open>verify_status\<close> nor the callback \<^verbatim>\<open>verify\<close> reads the
  payment's status. When the gateway reports success to two requests in sequence, each
  request saves the payment as \<^verbatim>\<open>completed\<close> and queues a confirmation task: the payment is
  \<^verbatim>\<open>completed\<close> after the first request and after the second, and two success notifications
  have been triggered.
\<close>

theorem verify_twice_notifies_twice:
  assumes "chapa_init gw1 = None" and "chapa_verify_payment gw1 r = Inr res1"
    and "vr_success res1" and "lower (get_default (vr_status res1) ''pending'') = ''success''"
    and "chapa_init gw2 = None" and "chapa_verify_payment gw2 r = Inr res2"
    and "vr_success res2" and "lower (get_default (vr_status res2) ''pending'') = ''success''"
  shows "((pk (guest (booking p)) = pk u \<or> pk (host (listing (booking p))) = pk u)
          \<and> chapa_reference p = Some r \<and> r \<noteq> [] \<longrightarrow>
          (\<exists>resp1 w1 resp2 w2.
             verify_status gw1 w p u = (resp1, w1)
           \<and> verify_status_twice gw1 gw2 w p u = Some (resp2, w2)
           \<and> is_success resp1 \<and> is_success resp2
           \<and> find (\<lambda>x. payment_id x = payment_id p) (payments w1) = Some (completed p res1)
           \<and> find (\<lambda>x. payment_id x = payment_id p) (payments w2)
                = Some (completed (completed p res1) res2)
           \<and> success_notifications w1 = success_notifications w + 1
           \<and> success_notifications w2 = success_notifications w + 2))
       \<and> (tx_ref \<noteq> [] \<and> find (\<lambda>x. payment_id x = tx_ref) (payments w) = Some p
          \<and> py_or (get_default (chapa_reference p) []) tx_ref = r \<longrightarrow>
          (\<exists>resp1 w1 resp2 w2.
             verify gw1 w (Some tx_ref) = (resp1, w1)
           \<and> verify_twice gw1 gw2 w (Some tx_ref) = (resp2, w2)
           \<and> is_success resp1 \<and> is_success resp2
           \<and> find (\<lambda>x. payment_id x = tx_ref) (payments w1) = Some (completed p res1)
           \<and> find (\<lambda>x. payment_id x = tx_ref) (payments w2)
                = Some (completed (completed p res1) res2)
           \<and> success_notifications w1 = success_notifications w + 1
           \<and> success_notifications w2 = success_notifications w + 2))"
proof (intro conjI impI)
  let ?p1 = "completed p res1"
  let ?w1 = "delay (confirmation_task ?p1 (vr_reference res1))
              (save_payment ?p1 (log_call (Verify_call r) w))"
  let ?p2 = "completed ?p1 res2"
  let ?w2 = "delay (confirmation_task ?p2 (vr_reference res2))
              (save_payment ?p2 (log_call (Verify_call r) ?w1))"
  have f1: "find (\<lambda>x. payment_id x = payment_id p) (payments ?w1) = Some ?p1"
    using find_after_success [of p res1] by simp
  have f2: "find (\<lambda>x. payment_id x = payment_id p) (payments ?w2) = Some ?p2"
    using find_after_success [of ?p1 res2] by simp
  have n1: "success_notifications ?w1 = success_notifications w + 1"
    by (simp add: success_notifications_delay)
  have n2: "success_notifications ?w2 = success_notifications w + 2"
    by (simp add: success_notifications_delay)
  {
    assume a: "(pk (guest (booking p)) = pk u \<or> pk (host (listing (booking p))) = pk u)
          \<and> chapa_reference p = Some r \<and> r \<noteq> []"
    have first: "snd (verify_status gw1 w p u) = ?w1 \<and> is_success (fst (verify_status gw1 w p u))"
      using a assms verify_status_success [of p u r gw1 res1 w] by simp
    have second: "snd (verify_status gw2 ?w1 ?p1 u) = ?w2
                  \<and> is_success (fst (verify_status gw2 ?w1 ?p1 u))"
      using a assms verify_status_success [of ?p1 u r gw2 res2 ?w1] by simp
    have twice: "verify_status_twice gw1 gw2 w p u = Some (verify_status gw2 ?w1 ?p1 u)"
      using first f1 by (simp add: verify_status_twice_def split_beta)
    show "\<exists>resp1 w1 resp2 w2.
             verify_status gw1 w p u = (resp1, w1)
           \<and> verify_status_twice gw1 gw2 w p u = Some (resp2, w2)
           \<and> is_success resp1 \<and> is_success resp2
           \<and> find (\<lambda>x. payment_id x = payment_id p) (payments w1) = Some (completed p res1)
           \<and> find (\<lambda>x. payment_id x = payment_id p) (payments w2)
                = Some (completed (completed p res1) res2)
           \<and> success_notifications w1 = success_notifications w + 1
           \<and> success_notifications w2 = success_notifications w + 2"
      using first second twice f1 f2 n1 n2
      by (intro exI [of _ "fst (verify_status gw1 w p u)"] exI [of _ ?w1]
            exI [of _ "fst (verify_status gw2 ?w1 ?p1 u)"] exI [of _ ?w2])
         (simp add: prod_eq_iff)
  }
  {
    assume a: "tx_ref \<noteq> [] \<and> find (\<lambda>x. payment_id x = tx_ref) (payments w) = Some p
          \<and> py_or (get_default (chapa_reference p) []) tx_ref = r"
    then have k: "payment_id p = tx_ref"
      using find_key [of payment_id tx_ref "payments w" p] by simp
    have first: "snd (verify gw1 w (Some tx_ref)) = ?w1
                 \<and> is_success (fst (verify gw1 w (Some tx_ref)))"
      using a assms verify_success [of tx_ref w p r gw1 res1] by simp
    have f1': "find (\<lambda>x. payment_id x = tx_ref) (payments ?w1) = Some ?p1"
      using f1 k by simp
    have second: "snd (verify gw2 ?w1 (Some tx_ref)) = ?w2
                  \<and> is_success (fst (verify gw2 ?w1 (Some tx_ref)))"
      using a assms f1' verify_success [of tx_ref ?w1 ?p1 r gw2 res2] by simp
    have twice: "verify_twice gw1 gw2 w (Some tx_ref) = verify gw2 ?w1 (Some tx_ref)"
      using first by (simp add: verify_twice_def split_beta)
    show "\<exists>resp1 w1 resp2 w2.
             verify gw1 w (Some tx_ref) = (resp1, w1)
           \<and> verify_twice gw1 gw2 w (Some tx_ref) = (resp2, w2)
           \<and> is_success resp1 \<and> is_success resp2
           \<and> find (\<lambda>x. payment_id x = tx_ref) (payments w1) = Some (completed p res1)
           \<and> find (\<lambda>x. payment_id x = tx_ref) (payments w2)
                = Some (completed (completed p res1) res2)
           \<and> success_notifications w1 = success_notifications w + 1
           \<and> success_notifications w2 = success_notifications w + 2"
      using first second twice f1 f2 n1 n2 k
      by (intro exI [of _ "fst (verify gw1 w (Some tx_ref))"] exI [of _ ?w1]
            exI [of _ "fst (verify gw2 ?w1 (Some tx_ref))"] exI [of _ ?w2])
         (simp add: prod_eq_iff)
  }
qed


theorem verify_twice_notifies_twice_witness:
  "(\<exists>resp1 w1 resp2 w2.
      verify_status (gateway_returning checkout_ok (verdict ''success'')) db1 initiated_payment alice
        = (resp1, w1)
    \<and> verify_status_twice (gateway_returning checkout_ok (verdict ''success''))
        (gateway_returning checkout_ok (verdict ''success'')) db1 initiated_payment alice
        = Some (resp2, w2)
    \<and> is_success resp1 \<and> is_success resp2
    \<and> map_option payment_status (find (\<lambda>x. payment_id x = ''P1'') (payments w1)) = Some ''completed''
    \<and> map_option payment_status (find (\<lambda>x. payment_id x = ''P1'') (payments w2)) = Some ''completed''
    \<and> success_notifications w1 = 1 \<and> success_notifications w2 = 2)
   \<and> (\<exists>resp1 w1 resp2 w2.
      verify (gateway_returning checkout_ok (verdict ''success'')) db1 (Some ''P1'') = (resp1, w1)
    \<and> verify_twice (gateway_returning checkout_ok (verdict ''success''))
        (gateway_returning checkout_ok (verdict ''success'')) db1 (Some ''P1'') = (resp2, w2)
    \<and> is_success resp1 \<and> is_success resp2
    \<and> map_option payment_status (find (\<lambda>x. payment_id x = ''P1'') (payments w1)) = Some ''completed''
    \<and> map_option payment_status (find (\<lambda>x. payment_id x = ''P1'') (payments w2)) = Some ''completed''
    \<and> success_notifications w1 = 1 \<and> success_notifications w2 = 2)"
proof -
  let ?gw = "gateway_returning checkout_ok (verdict ''success'')"
  have g: "chapa_init ?gw = None" "chapa_verify_payment ?gw ''TX1'' = Inr (verdict ''success'')"
    "vr_success (verdict ''success'')"
    "lower (get_default (vr_status (verdict ''success'')) ''pending'') = ''success''"
    by (simp_all add: gateway_returning_def verdict_def get_default_def lower_def lower_char_def)
  have p: "(pk (guest (booking initiated_payment)) = pk alice
            \<or> pk (host (listing (booking initiated_payment))) = pk alice)
          \<and> chapa_reference initiated_payment = Some ''TX1'' \<and> ''TX1'' \<noteq> []"
    by (simp add: initiated_payment_def stay_payment_def stay_def)
  have q: "''P1'' \<noteq> [] \<and> find (\<lambda>x. payment_id x = ''P1'') (payments db1) = Some initiated_payment
          \<and> py_or (get_default (chapa_reference initiated_payment) []) ''P1'' = ''TX1''"
    by (simp add: db1_def db_empty_def initiated_payment_def stay_payment_def py_or_def get_default_def)
  have n: "success_notifications db1 = 0" "payment_id initiated_payment = ''P1''"
    by (simp_all add: success_notifications_def db1_def db_empty_def initiated_payment_def
          stay_payment_def)
  from verify_twice_notifies_twice
         [OF g g, where p = initiated_payment and u = alice and w = db1 and tx_ref = "''P1''"]
       p q n
  show ?thesis by fastforce
qed

text \<open>
  C1, as the claim states it, fails: after two verifications of the same payment, both
  answered with success by the gateway, the queue holds two confirmation tasks, not one.
\<close>

theorem verify_status_twice_counterexample:
  "map_option (success_notifications \<circ> snd)
     (verify_status_twice (gateway_returning checkout_ok (verdict ''success''))
        (gateway_returning checkout_ok (verdict ''success'')) db1 initiated_payment alice) = Some 2
   \<and> success_notifications db1 = 0
   \<and> map_option (success_notifications \<circ> snd)
     (verify_status_twice (gateway_returning checkout_ok (verdict ''success''))
        (gateway_returning checkout_ok (verdict ''success'')) db1 initiated_payment alice)
      \<noteq> Some (success_notifications db1 + 1)"
  by code_simp

subsection \<open>Email tasks\<close>

lemma run_email_task_unfold:
  "run_email_task s n =
     (case s n of
        None \<Rightarrow> ([Log_info], Email_sent)
      | Some exc \<Rightarrow>
          if max_retries \<le> n then ([Log_error exc], Task_failed exc)
          else (Log_error exc # Retry_after (countdown n) # fst (run_email_task s (Suc n)),
                snd (run_email_task s (Suc n))))"
  by (subst run_email_task.simps) (simp add: split_beta Let_def split: option.splits)

lemma delays_run:
  "\<exists>k. delays (fst (run_email_task s n)) = map countdown [n..<n + k]
       \<and> n + k \<le> max n max_retries"
proof (induction s n rule: run_email_task.induct)
  case (1 s n)
  show ?case
  proof (cases "s n")
    case None
    then have "fst (run_email_task s n) = [Log_info]"
      by (subst run_email_task_unfold) simp
    then show ?thesis by (intro exI [of _ 0]) simp
  next
    case (Some exc)
    show ?thesis
    proof (cases "max_retries \<le> n")
      case True
      with Some have "fst (run_email_task s n) = [Log_error exc]"
        by (subst run_email_task_unfold) simp
      then show ?thesis by (intro exI [of _ 0]) simp
    next
      case False
      then have "\<not> max_retries < n + 1" by simp
      from "1.IH" [OF Some this] obtain k
        where ih: "delays (fst (run_email_task s (Suc n))) = map countdown [Suc n..<Suc n + k]"
          and b: "Suc n + k \<le> max (Suc n) max_retries"
        by auto
      have u: "fst (run_email_task s n) =
                 Log_error exc # Retry_after (countdown n) # fst (run_email_task s (Suc n))"
        using Some False by (subst run_email_task_unfold) simp
      have e: "[n..<n + Suc k] = n # [Suc n..<Suc n + k]"
        using upt_conv_Cons [of n "n + Suc k"] by simp
      have "delays (fst (run_email_task s n)) = countdown n # delays (fst (run_email_task s (Suc n)))"
        unfolding u by simp
      also have "\<dots> = countdown n # map countdown [Suc n..<Suc n + k]"
        by (simp only: ih)
      also have "\<dots> = map countdown [n..<n + Suc k]"
        by (simp only: e list.map)
      finally have "delays (fst (run_email_task s n)) = map countdown [n..<n + Suc k]" .
      moreover have "n + Suc k \<le> max n max_retries"
        using b False by simp
      ultimately show ?thesis by blast
    qed
  qed
qed

lemma errors_run:
  "errors_logged (fst (run_email_task s n)) =
     length (delays (fst (run_email_task s n)))
     + (case snd (run_email_task s n) of Email_sent \<Rightarrow> 0 | Task_failed exc \<Rightarrow> 1)"
proof (induction s n rule: run_email_task.induct)
  case (1 s n)
  show ?case
  proof (cases "s n")
    case None
    then have "run_email_task s n = ([Log_info], Email_sent)"
      by (subst run_email_task_unfold) simp
    then show ?thesis by simp
  next
    case (Some exc)
    show ?thesis
    proof (cases "max_retries \<le> n")
      case True
      with Some have "run_email_task s n = ([Log_error exc], Task_failed exc)"
        by (subst run_email_task_unfold) simp
      then show ?thesis by simp
    next
      case False
      then have "\<not> max_retries < n + 1" by simp
      note ih = "1.IH" [OF Some this]
      have u: "run_email_task s n =
                 (Log_error exc # Retry_after (countdown n) # fst (run_email_task s (Suc n)),
                  snd (run_email_task s (Suc n)))"
        using Some False by (subst run_email_task_unfold) simp
      from ih show ?thesis unfolding u by simp
    qed
  qed
qed

lemma failed_run:
  "snd (run_email_task s n) = Task_failed exc \<Longrightarrow> n \<le> max_retries \<Longrightarrow>
   s max_retries = Some exc \<and> (\<forall>k. n \<le> k \<and> k \<le> max_retries \<longrightarrow> s k \<noteq> None)"
proof (induction s n rule: run_email_task.induct)
  case (1 s n)
  show ?case
  proof (cases "s n")
    case None
    then have "run_email_task s n = ([Log_info], Email_sent)"
      by (subst run_email_task_unfold) simp
    with "1.prems" show ?thesis by simp
  next
    case (Some e)
    show ?thesis
    proof (cases "max_retries \<le> n")
      case True
      with Some have "run_email_task s n = ([Log_error e], Task_failed e)"
        by (subst run_email_task_unfold) simp
      with "1.prems" True Some show ?thesis by auto
    next
      case False
      then have "\<not> max_retries < n + 1" by simp
      note ih = "1.IH" [OF Some this]
      have u: "snd (run_email_task s n) = snd (run_email_task s (Suc n))"
        using Some False by (subst run_email_task_unfold) simp
      from ih u "1.prems" False have
        r: "s max_retries = Some exc \<and> (\<forall>k. Suc n \<le> k \<and> k \<le> max_retries \<longrightarrow> s k \<noteq> None)"
        by simp
      have "s k \<noteq> None" if "n \<le> k" "k \<le> max_retries" for k
        using that r Some by (cases "k = n") auto
      with r show ?thesis by blast
    qed
  qed
qed

lemma countdown_increasing: "countdown n < countdown (Suc n)"
  by (simp add: countdown_def)

lemma four_attempts:
  "run_email_task send_mail 0 =
     (case send_mail 0 of
        None \<Rightarrow> ([Log_info], Email_sent)
      | Some e0 \<Rightarrow>
          (case send_mail 1 of
             None \<Rightarrow> ([Log_error e0, Retry_after 60, Log_info], Email_sent)
           | Some e1 \<Rightarrow>
               (case send_mail 2 of
                  None \<Rightarrow> ([Log_error e0, Retry_after 60, Log_error e1, Retry_after 120, Log_info],
                           Email_sent)
                | Some e2 \<Rightarrow>
                    (case send_mail 3 of
                       None \<Rightarrow> ([Log_error e0, Retry_after 60, Log_error e1, Retry_after 120,
                                 Log_error e2, Retry_after 240, Log_info], Email_sent)
                     | Some e3 \<Rightarrow> ([Log_error e0, Retry_after 60, Log_error e1, Retry_after 120,
                                    Log_error e2, Retry_after 240, Log_error e3],
                                   Task_failed e3)))))"
proof -
  have n: "(1::nat) = Suc 0" "(2::nat) = Suc (Suc 0)" "(3::nat) = Suc (Suc (Suc 0))"
    by simp_all
  show ?thesis
    unfolding n
    by (simp add: run_email_task_unfold [of _ 0] run_email_task_unfold [of _ "Suc 0"]
          run_email_task_unfold [of _ "Suc (Suc 0)"] run_email_task_unfold [of _ "Suc (Suc (Suc 0))"]
          max_retries_def countdown_def split: option.splits)
qed

lemma worker_tables [simp]:
  "payments (snd (worker send_mail w)) = payments w"
  "bookings (snd (worker send_mail w)) = bookings w"
  "gateway_calls (snd (worker send_mail w)) = gateway_calls w"
  by (simp_all add: worker_def split: list.splits)

text \<open>
  C9. A task starts with no retry counted. Its run is determined by the first four
  attempts to send: an attempt that succeeds logs it and ends the run; an attempt that
  fails logs the error and, while fewer than \<^verbatim>\<open>max_retries\<close> = 3 retries have been made, is
  followed by a retry after \<open>countdown\<close> seconds (60, 120, 240, each twice the one before);
  the fourth failure ends the run with the task failed. So there are at most 3 retries and
  every failure is logged. The failure stays with the worker: the worker's run changes no
  table, and the response of the view that queued the task, and the payments it saved, are
  the same whatever sending does.
\<close>

theorem email_task_bounded_retries:
  "run_email_task send_mail 0 =
     (case send_mail 0 of
        None \<Rightarrow> ([Log_info], Email_sent)
      | Some e0 \<Rightarrow>
          (case send_mail 1 of
             None \<Rightarrow> ([Log_error e0, Retry_after 60, Log_info], Email_sent)
           | Some e1 \<Rightarrow>
               (case send_mail 2 of
                  None \<Rightarrow> ([Log_error e0, Retry_after 60, Log_error e1, Retry_after 120, Log_info],
                           Email_sent)
                | Some e2 \<Rightarrow>
                    (case send_mail 3 of
                       None \<Rightarrow> ([Log_error e0, Retry_after 60, Log_error e1, Retry_after 120,
                                 Log_error e2, Retry_after 240, Log_info], Email_sent)
                     | Some e3 \<Rightarrow> ([Log_error e0, Retry_after 60, Log_error e1, Retry_after 120,
                                    Log_error e2, Retry_after 240, Log_error e3],
                                   Task_failed e3)))))
   \<and> (send_mail n = Some exc \<and> n < max_retries \<longrightarrow>
        run_email_task send_mail n =
          (Log_error exc # Retry_after (60 * 2 ^ n) # fst (run_email_task send_mail (Suc n)),
           snd (run_email_task send_mail (Suc n))))
   \<and> (send_mail n = Some exc \<and> max_retries \<le> n \<longrightarrow>
        run_email_task send_mail n = ([Log_error exc], Task_failed exc))
   \<and> (send_mail n = None \<longrightarrow> run_email_task send_mail n = ([Log_info], Email_sent))
   \<and> length (delays (fst (run_email_task send_mail 0))) \<le> max_retries
   \<and> max_retries = 3
   \<and> delays (fst (run_email_task send_mail 0)) =
       map countdown [0..<length (delays (fst (run_email_task send_mail 0)))]
   \<and> countdown n < countdown (Suc n)
   \<and> errors_logged (fst (run_email_task send_mail 0)) =
       length (delays (fst (run_email_task send_mail 0)))
       + (case snd (run_email_task send_mail 0) of Email_sent \<Rightarrow> 0 | Task_failed exc \<Rightarrow> 1)
   \<and> (snd (run_email_task send_mail 0) = Email_sent
      \<or> snd (run_email_task send_mail 0) = Task_failed (get_default (send_mail 3) [])
        \<and> send_mail 0 \<noteq> None \<and> send_mail 1 \<noteq> None \<and> send_mail 2 \<noteq> None \<and> send_mail 3 \<noteq> None)
   \<and> verify_status_then_worker gw send_mail w p u =
       (fst (verify_status gw w p u), worker send_mail (snd (verify_status gw w p u)))
   \<and> fst (verify_status_then_worker gw send_mail w p u) =
       fst (verify_status_then_worker gw send_mail' w p u)
   \<and> payments (snd (snd (verify_status_then_worker gw send_mail w p u))) =
       payments (snd (verify_status gw w p u))
   \<and> bookings (snd (snd (verify_status_then_worker gw send_mail w p u))) =
       bookings (snd (verify_status gw w p u))
   \<and> (task_queue w' = t # ts \<longrightarrow>
        worker send_mail w' = (Some (run_email_task send_mail 0), w'\<lparr>task_queue := ts\<rparr>))"
proof -
  obtain k where k: "delays (fst (run_email_task send_mail 0)) = map countdown [0..<k]"
    and kb: "k \<le> max_retries"
    using delays_run [of send_mail 0] by auto
  have a: "length (delays (fst (run_email_task send_mail 0))) \<le> max_retries"
    unfolding k using kb by simp
  have b: "delays (fst (run_email_task send_mail 0)) =
       map countdown [0..<length (delays (fst (run_email_task send_mail 0)))]"
    unfolding k by simp
  have c: "snd (run_email_task send_mail 0) = Email_sent
      \<or> snd (run_email_task send_mail 0) = Task_failed (get_default (send_mail 3) [])
        \<and> send_mail 0 \<noteq> None \<and> send_mail 1 \<noteq> None \<and> send_mail 2 \<noteq> None \<and> send_mail 3 \<noteq> None"
  proof (cases "snd (run_email_task send_mail 0)")
    case Email_sent
    then show ?thesis by simp
  next
    case (Task_failed exc)
    from failed_run [OF this] have "send_mail 3 = Some exc"
      and "\<forall>k. k \<le> 3 \<longrightarrow> send_mail k \<noteq> None"
      by (simp_all add: max_retries_def)
    with Task_failed show ?thesis by (simp add: get_default_def)
  qed
  have step: "run_email_task send_mail n =
          (Log_error exc # Retry_after (60 * 2 ^ n) # fst (run_email_task send_mail (Suc n)),
           snd (run_email_task send_mail (Suc n)))"
    if "send_mail n = Some exc \<and> n < max_retries"
    using that by (subst run_email_task_unfold) (simp add: countdown_def)
  have last: "run_email_task send_mail n = ([Log_error exc], Task_failed exc)"
    if "send_mail n = Some exc \<and> max_retries \<le> n"
    using that by (subst run_email_task_unfold) simp
  have sent: "run_email_task send_mail n = ([Log_info], Email_sent)" if "send_mail n = None"
    using that by (subst run_email_task_unfold) simp
  have v: "verify_status_then_worker gw s w p u =
       (fst (verify_status gw w p u), worker s (snd (verify_status gw w p u)))" for s
    by (simp add: verify_status_then_worker_def split_beta)
  have wk: "worker send_mail w' = (Some (run_email_task send_mail 0), w'\<lparr>task_queue := ts\<rparr>)"
    if "task_queue w' = t # ts"
    using that by (simp add: worker_def)
  show ?thesis
    using four_attempts [of send_mail] step last sent a b c countdown_increasing [of n]
      errors_run [of send_mail 0] v wk
    by (simp add: max_retries_def)
qed

theorem email_task_bounded_retries_witness:
  "run_email_task (\<lambda>n. if n < 2 then Some ''SMTP down'' else None) 0 =
     ([Log_error ''SMTP down'', Retry_after 60, Log_error ''SMTP down'', Retry_after 120, Log_info],
      Email_sent)
   \<and> run_email_task (\<lambda>n. Some ''SMTP down'') 0 =
     ([Log_error ''SMTP down'', Retry_after 60, Log_error ''SMTP down'', Retry_after 120,
       Log_error ''SMTP down'', Retry_after 240, Log_error ''SMTP down''],
      Task_failed ''SMTP down'')
   \<and> run_email_task (\<lambda>n. Some ''SMTP down'') 3 = ([Log_error ''SMTP down''], Task_failed ''SMTP down'')
   \<and> length (delays (fst (run_email_task (\<lambda>n. Some ''SMTP down'') 0))) \<le> 3
   \<and> errors_logged (fst (run_email_task (\<lambda>n. Some ''SMTP down'') 0)) = 4
   \<and> fst (verify_status_then_worker (gateway_returning checkout_ok (verdict ''success''))
            (\<lambda>n. Some ''SMTP down'') db1 initiated_payment alice) =
       fst (verify_status (gateway_returning checkout_ok (verdict ''success'')) db1
              initiated_payment alice)
   \<and> fst (snd (verify_status_then_worker (gateway_returning checkout_ok (verdict ''success''))
            (\<lambda>n. Some ''SMTP down'') db1 initiated_payment alice)) =
       Some ([Log_error ''SMTP down'', Retry_after 60, Log_error ''SMTP down'', Retry_after 120,
              Log_error ''SMTP down'', Retry_after 240, Log_error ''SMTP down''],
             Task_failed ''SMTP down'')"
proof -
  let ?down = "\<lambda>n::nat. Some ''SMTP down''"
  let ?gw = "gateway_returning checkout_ok (verdict ''success'')"
  let ?w1 = "snd (verify_status ?gw db1 initiated_payment alice)"
  let ?t = "confirmation_task (completed initiated_payment (verdict ''success'')) (Some ''TX1'')"
  note t = email_task_bounded_retries [where gw = ?gw and w = db1 and p = initiated_payment
             and u = alice and exc = "''SMTP down''" and send_mail' = ?down and w' = ?w1
             and ts = "[]" and t = ?t]
  have r1: "run_email_task (\<lambda>n. if n < 2 then Some ''SMTP down'' else None) 0 =
     ([Log_error ''SMTP down'', Retry_after 60, Log_error ''SMTP down'', Retry_after 120, Log_info],
      Email_sent)"
    using t [where send_mail = "\<lambda>n. if n < 2 then Some ''SMTP down'' else None" and n = 0]
    by simp
  have r2: "run_email_task ?down 0 =
     ([Log_error ''SMTP down'', Retry_after 60, Log_error ''SMTP down'', Retry_after 120,
       Log_error ''SMTP down'', Retry_after 240, Log_error ''SMTP down''],
      Task_failed ''SMTP down'')"
    using t [where send_mail = ?down and n = 0] by simp
  have r3: "run_email_task ?down 3 = ([Log_error ''SMTP down''], Task_failed ''SMTP down'')"
    using t [where send_mail = ?down and n = 3] by (simp add: max_retries_def)
  have q: "task_queue ?w1 = [?t]"
    using verify_status_success
            [of initiated_payment alice "''TX1''" ?gw "verdict ''success''" db1]
    by (simp add: gateway_returning_def verdict_def get_default_def lower_def lower_char_def
          db1_def db_empty_def initiated_payment_def stay_payment_def stay_def)
  have r4: "fst (snd (verify_status_then_worker ?gw ?down db1 initiated_payment alice)) =
              Some (run_email_task ?down 0)"
    using t [where send_mail = ?down and n = 0] q by simp
  have r5: "fst (verify_status_then_worker ?gw ?down db1 initiated_payment alice) =
       fst (verify_status ?gw db1 initiated_payment alice)"
    using t [where send_mail = ?down and n = 0] by simp
  show ?thesis
    using r1 r2 r3 r4 r5 by simp
qed

end
